theory Spec2Isabelle
  imports Complex_Main "HOL-Library.Word" "HOL-Library.Multiset"
begin

section \<open>Values stored by the analytics service\<close>

text \<open>
  The service (\<^verbatim>\<open>src/analytics/app.py\<close>) keeps three tables in one embedded database and
  answers every request with one or more SQL statements. The embedding below gives each
  statement the meaning SQL gives it, over tables held as lists of rows.

  \<^item> A \<^verbatim>\<open>UUID\<close> column holds a 128-bit value. A request carries an identifier as text,
    which the engine converts when it runs a statement. The conversion is not code of the
    service: the routes take it as the parameter \<open>to_uuid\<close>, \<open>None\<close> for text that is no
    UUID, and the statements are modelled on converted identifiers.
  \<^item> A \<^verbatim>\<open>TIMESTAMP\<close> is a number of microseconds since the epoch, without a time zone.
  \<^item> A \<^verbatim>\<open>FLOAT\<close> duration is modelled by the rational number it denotes, taken to be one
    the column can hold: the model is exact arithmetic and says nothing about binary
    rounding inside the engine.
  \<^item> A \<^verbatim>\<open>JSON\<close> value is kept as it was sent: what the engine's conversion does to it is
    not modelled, and no statement reads it.
  \<^item> A nullable column is an \<open>option\<close>; \<open>None\<close> is SQL's \<^verbatim>\<open>NULL\<close> and Python's \<^verbatim>\<open>None\<close>.
\<close>

type_synonym uuid = "128 word"

type_synonym timestamp = int

datatype json =
    JNull
  | JBool bool
  | JNum rat
  | JStr string
  | JArr "json list"
  | JObj "(string \<times> json) list"

section \<open>Schema: \<^verbatim>\<open>init_database\<close>\<close>

datatype sql_type = UUID | VARCHAR | FLOAT | JSON | TIMESTAMP | BIGINT | INTEGER

datatype sql_default = Gen_random_uuid | Current_timestamp | Literal int

text \<open>A column definition: name, type, \<^verbatim>\<open>NOT NULL\<close>, and the \<^verbatim>\<open>DEFAULT\<close> if any.\<close>

datatype column = Column string sql_type bool "sql_default option"

definition document_events_columns :: "column list" where
  "document_events_columns =
    [Column ''id'' UUID False (Some Gen_random_uuid),
     Column ''user_id'' UUID True None,
     Column ''document_id'' UUID False None,
     Column ''event_type'' VARCHAR True None,
     Column ''document_type'' VARCHAR False None,
     Column ''ai_service'' VARCHAR False None,
     Column ''duration_seconds'' FLOAT False None,
     Column ''status'' VARCHAR True None,
     Column ''metadata'' JSON False None,
     Column ''created_at'' TIMESTAMP False (Some Current_timestamp)]"

definition blockchain_events_columns :: "column list" where
  "blockchain_events_columns =
    [Column ''id'' UUID False (Some Gen_random_uuid),
     Column ''user_id'' UUID True None,
     Column ''document_id'' UUID False None,
     Column ''transaction_id'' VARCHAR False None,
     Column ''network'' VARCHAR True None,
     Column ''transaction_type'' VARCHAR True None,
     Column ''duration_seconds'' FLOAT False None,
     Column ''status'' VARCHAR True None,
     Column ''gas_used'' BIGINT False None,
     Column ''metadata'' JSON False None,
     Column ''created_at'' TIMESTAMP False (Some Current_timestamp)]"

definition user_sessions_columns :: "column list" where
  "user_sessions_columns =
    [Column ''id'' UUID False (Some Gen_random_uuid),
     Column ''user_id'' UUID True None,
     Column ''session_start'' TIMESTAMP True None,
     Column ''session_end'' TIMESTAMP False None,
     Column ''ip_address'' VARCHAR False None,
     Column ''user_agent'' VARCHAR False None,
     Column ''actions_count'' INTEGER False (Some (Literal 0)),
     Column ''created_at'' TIMESTAMP False (Some Current_timestamp)]"

record document_row =
  dr_id :: "uuid option"
  dr_user_id :: uuid
  dr_document_id :: "uuid option"
  dr_event_type :: string
  dr_document_type :: "string option"
  dr_ai_service :: "string option"
  dr_duration_seconds :: "rat option"
  dr_status :: string
  dr_metadata :: "json option"
  dr_created_at :: "timestamp option"

record blockchain_row =
  br_id :: "uuid option"
  br_user_id :: uuid
  br_document_id :: "uuid option"
  br_transaction_id :: "string option"
  br_network :: string
  br_transaction_type :: string
  br_duration_seconds :: "rat option"
  br_status :: string
  br_gas_used :: "int option"
  br_metadata :: "json option"
  br_created_at :: "timestamp option"

record session_row =
  sr_id :: "uuid option"
  sr_user_id :: uuid
  sr_session_start :: timestamp
  sr_session_end :: "timestamp option"
  sr_ip_address :: "string option"
  sr_user_agent :: "string option"
  sr_actions_count :: "int option"
  sr_created_at :: "timestamp option"

text \<open>A table is its column definitions and its rows, in insertion order.\<close>

record 'r table =
  columns :: "column list"
  rows :: "'r list"

text \<open>
  The state behind the module-level connection \<^verbatim>\<open>conn\<close>: each of the three tables the
  service names, \<open>None\<close> while it has not been created.
\<close>

record database =
  document_events :: "document_row table option"
  blockchain_events :: "blockchain_row table option"
  user_sessions :: "session_row table option"

text \<open>\<^verbatim>\<open>CREATE TABLE IF NOT EXISTS\<close>: an existing table is left as it is.\<close>

definition create_table_if_not_exists :: "column list \<Rightarrow> 'r table option \<Rightarrow> 'r table option" where
  "create_table_if_not_exists cols t =
    (case t of
       None \<Rightarrow> Some \<lparr>columns = cols, rows = []\<rparr>
     | Some existing \<Rightarrow> Some existing)"

definition init_database :: "database \<Rightarrow> database" where
  "init_database db =
    (let db1 = db\<lparr>document_events :=
                 create_table_if_not_exists document_events_columns (document_events db)\<rparr>;
         db2 = db1\<lparr>blockchain_events :=
                 create_table_if_not_exists blockchain_events_columns (blockchain_events db1)\<rparr>
     in db2\<lparr>user_sessions :=
                 create_table_if_not_exists user_sessions_columns (user_sessions db2)\<rparr>)"

text \<open>The set of tables that exist, by name, and the number of rows of each.\<close>

definition table_names :: "database \<Rightarrow> string set" where
  "table_names db =
    (if document_events db = None then {} else {''document_events''}) \<union>
    (if blockchain_events db = None then {} else {''blockchain_events''}) \<union>
    (if user_sessions db = None then {} else {''user_sessions''})"

definition table_columns :: "database \<Rightarrow> column list option \<times> column list option \<times> column list option" where
  "table_columns db =
    (map_option columns (document_events db),
     map_option columns (blockchain_events db),
     map_option columns (user_sessions db))"

definition row_counts :: "database \<Rightarrow> nat option \<times> nat option \<times> nat option" where
  "row_counts db =
    (map_option (\<lambda>t. length (rows t)) (document_events db),
     map_option (\<lambda>t. length (rows t)) (blockchain_events db),
     map_option (\<lambda>t. length (rows t)) (user_sessions db))"

definition initialized :: "database \<Rightarrow> bool" where
  "initialized db \<longleftrightarrow>
    document_events db \<noteq> None \<and> blockchain_events db \<noteq> None \<and> user_sessions db \<noteq> None"

section \<open>Request bodies: the \<^verbatim>\<open>BaseModel\<close> classes\<close>

text \<open>
  The framework builds the model object from the decoded JSON body before it calls the
  handler. For each field of the class the body holds no value (the key is absent or
  \<^verbatim>\<open>null\<close>), a value the declared type does not accept (\<^verbatim>\<open>"fast"\<close> for a \<^verbatim>\<open>float\<close>), or a
  value of the declared type. Which JSON values a declared type accepts is the
  framework's business; the model starts from that classification.
\<close>

datatype 'a field = Missing | Ill_typed | Given 'a

record DocumentEvent_body =
  deb_user_id :: "string field"
  deb_document_id :: "string field"
  deb_event_type :: "string field"
  deb_document_type :: "string field"
  deb_ai_service :: "string field"
  deb_duration_seconds :: "rat field"
  deb_status :: "string field"
  deb_metadata :: "json field"

record BlockchainEvent_body =
  beb_user_id :: "string field"
  beb_document_id :: "string field"
  beb_transaction_id :: "string field"
  beb_network :: "string field"
  beb_transaction_type :: "string field"
  beb_duration_seconds :: "rat field"
  beb_status :: "string field"
  beb_gas_used :: "int field"
  beb_metadata :: "json field"

text \<open>
  The model objects, as the classes declare them: identifiers are \<^verbatim>\<open>str\<close>, a field
  declared \<^verbatim>\<open>Optional[...] = None\<close> may be \<^verbatim>\<open>None\<close>, and no field carries a constraint on its
  length or its value.
\<close>

record DocumentEvent_model =
  dm_user_id :: string
  dm_document_id :: "string option"
  dm_event_type :: string
  dm_document_type :: "string option"
  dm_ai_service :: "string option"
  dm_duration_seconds :: "rat option"
  dm_status :: string
  dm_metadata :: "json option"

record BlockchainEvent_model =
  bm_user_id :: string
  bm_document_id :: "string option"
  bm_transaction_id :: "string option"
  bm_network :: string
  bm_transaction_type :: string
  bm_duration_seconds :: "rat option"
  bm_status :: string
  bm_gas_used :: "int option"
  bm_metadata :: "json option"

text \<open>
  The values an \<^verbatim>\<open>INSERT\<close> stores for a model object: the same fields, with the two
  identifiers converted to the type of their \<^verbatim>\<open>UUID\<close> columns.
\<close>

record DocumentEvent =
  de_user_id :: uuid
  de_document_id :: "uuid option"
  de_event_type :: string
  de_document_type :: "string option"
  de_ai_service :: "string option"
  de_duration_seconds :: "rat option"
  de_status :: string
  de_metadata :: "json option"

record BlockchainEvent =
  be_user_id :: uuid
  be_document_id :: "uuid option"
  be_transaction_id :: "string option"
  be_network :: string
  be_transaction_type :: string
  be_duration_seconds :: "rat option"
  be_status :: string
  be_gas_used :: "int option"
  be_metadata :: "json option"

text \<open>
  What a request can end in besides its answer: the framework's rejection of a body that
  does not fit the model class (the handler is never called), or the handler's
  \<^verbatim>\<open>HTTPException\<close> with its status code (the \<^verbatim>\<open>detail\<close> text is not modelled).
\<close>

datatype error = RequestValidationError | HTTPException nat

text \<open>
  A field declared without a default must hold a value of its type; a field declared
  \<^verbatim>\<open>Optional[...] = None\<close> may be missing and must not hold a value of another type. The
  result is \<open>None\<close> where the framework rejects the field.
\<close>

definition required :: "'a field \<Rightarrow> 'a option" where
  "required f = (case f of Given v \<Rightarrow> Some v | _ \<Rightarrow> None)"

definition optional :: "'a field \<Rightarrow> 'a option option" where
  "optional f = (case f of Missing \<Rightarrow> Some None | Given v \<Rightarrow> Some (Some v) | Ill_typed \<Rightarrow> None)"

definition parse_DocumentEvent :: "DocumentEvent_body \<Rightarrow> error + DocumentEvent_model" where
  "parse_DocumentEvent b =
    (case (required (deb_user_id b), required (deb_event_type b), required (deb_status b)) of
       (Some u, Some e, Some s) \<Rightarrow>
         (case (optional (deb_document_id b), optional (deb_document_type b),
                optional (deb_ai_service b)) of
            (Some d, Some ty, Some ai) \<Rightarrow>
              (case (optional (deb_duration_seconds b), optional (deb_metadata b)) of
                 (Some du, Some m) \<Rightarrow>
                   Inr \<lparr>dm_user_id = u, dm_document_id = d, dm_event_type = e,
                        dm_document_type = ty, dm_ai_service = ai, dm_duration_seconds = du,
                        dm_status = s, dm_metadata = m\<rparr>
               | _ \<Rightarrow> Inl RequestValidationError)
          | _ \<Rightarrow> Inl RequestValidationError)
     | _ \<Rightarrow> Inl RequestValidationError)"

definition parse_BlockchainEvent :: "BlockchainEvent_body \<Rightarrow> error + BlockchainEvent_model" where
  "parse_BlockchainEvent b =
    (case (required (beb_user_id b), required (beb_network b),
           required (beb_transaction_type b), required (beb_status b)) of
       (Some u, Some n, Some t, Some s) \<Rightarrow>
         (case (optional (beb_document_id b), optional (beb_transaction_id b),
                optional (beb_duration_seconds b)) of
            (Some d, Some tx, Some du) \<Rightarrow>
              (case (optional (beb_gas_used b), optional (beb_metadata b)) of
                 (Some g, Some m) \<Rightarrow>
                   Inr \<lparr>bm_user_id = u, bm_document_id = d, bm_transaction_id = tx,
                        bm_network = n, bm_transaction_type = t, bm_duration_seconds = du,
                        bm_status = s, bm_gas_used = g, bm_metadata = m\<rparr>
               | _ \<Rightarrow> Inl RequestValidationError)
          | _ \<Rightarrow> Inl RequestValidationError)
     | _ \<Rightarrow> Inl RequestValidationError)"

section \<open>Writes: \<^verbatim>\<open>record_document_event\<close>, \<^verbatim>\<open>record_blockchain_event\<close>\<close>

text \<open>
  The handler passes the model object's fields to one \<^verbatim>\<open>INSERT\<close>. The engine converts the
  text of \<^verbatim>\<open>user_id\<close> and \<^verbatim>\<open>document_id\<close> to the type of their columns and fails on text
  that is no UUID; \<open>to_uuid\<close> is that conversion.
\<close>

definition convert_optional :: "(string \<Rightarrow> uuid option) \<Rightarrow> string option \<Rightarrow> uuid option option" where
  "convert_optional to_uuid v =
    (case v of None \<Rightarrow> Some None | Some text \<Rightarrow> map_option Some (to_uuid text))"

definition bind_DocumentEvent :: "(string \<Rightarrow> uuid option) \<Rightarrow> DocumentEvent_model \<Rightarrow> DocumentEvent option" where
  "bind_DocumentEvent to_uuid m =
    (case (to_uuid (dm_user_id m), convert_optional to_uuid (dm_document_id m)) of
       (Some u, Some d) \<Rightarrow>
         Some \<lparr>de_user_id = u, de_document_id = d, de_event_type = dm_event_type m,
               de_document_type = dm_document_type m, de_ai_service = dm_ai_service m,
               de_duration_seconds = dm_duration_seconds m, de_status = dm_status m,
               de_metadata = dm_metadata m\<rparr>
     | _ \<Rightarrow> None)"

definition bind_BlockchainEvent :: "(string \<Rightarrow> uuid option) \<Rightarrow> BlockchainEvent_model \<Rightarrow> BlockchainEvent option" where
  "bind_BlockchainEvent to_uuid m =
    (case (to_uuid (bm_user_id m), convert_optional to_uuid (bm_document_id m)) of
       (Some u, Some d) \<Rightarrow>
         Some \<lparr>be_user_id = u, be_document_id = d, be_transaction_id = bm_transaction_id m,
               be_network = bm_network m, be_transaction_type = bm_transaction_type m,
               be_duration_seconds = bm_duration_seconds m, be_status = bm_status m,
               be_gas_used = bm_gas_used m, be_metadata = bm_metadata m\<rparr>
     | _ \<Rightarrow> None)"

text \<open>
  The \<^verbatim>\<open>INSERT\<close> names every column but \<^verbatim>\<open>id\<close> and \<^verbatim>\<open>created_at\<close>, which take their
  defaults: a fresh identifier and the time of the statement, both given to the model as
  arguments. The statement fails when its table does not exist or a value is outside the
  range of its column; the handler turns any failure into
  \<^verbatim>\<open>HTTPException(status_code=500)\<close> and the table keeps its rows.
\<close>

text \<open>
  A \<^verbatim>\<open>FLOAT\<close> column holds a 4-byte float: a duration fits when it rounds to a finite one.
  A \<^verbatim>\<open>BIGINT\<close> column holds a signed 64-bit integer; Python's \<^verbatim>\<open>int\<close> is unbounded.
\<close>

definition fits_float :: "rat option \<Rightarrow> bool" where
  "fits_float d =
    (case d of None \<Rightarrow> True | Some x \<Rightarrow> \<bar>x\<bar> < (2 - 1 / 2 ^ 24) * 2 ^ 127)"

definition fits_bigint :: "int option \<Rightarrow> bool" where
  "fits_bigint g = (case g of None \<Rightarrow> True | Some n \<Rightarrow> - (2 ^ 63) \<le> n \<and> n < 2 ^ 63)"

definition document_row_of :: "uuid \<Rightarrow> timestamp \<Rightarrow> DocumentEvent \<Rightarrow> document_row" where
  "document_row_of new_id now event =
    \<lparr>dr_id = Some new_id, dr_user_id = de_user_id event,
     dr_document_id = de_document_id event, dr_event_type = de_event_type event,
     dr_document_type = de_document_type event, dr_ai_service = de_ai_service event,
     dr_duration_seconds = de_duration_seconds event, dr_status = de_status event,
     dr_metadata = de_metadata event, dr_created_at = Some now\<rparr>"

text \<open>\<^verbatim>\<open>record_document_event\<close>, from the converted identifiers on.\<close>

definition record_document_event ::
  "database \<Rightarrow> uuid \<Rightarrow> timestamp \<Rightarrow> DocumentEvent \<Rightarrow> (error + string) \<times> database" where
  "record_document_event db new_id now event =
    (case document_events db of
       None \<Rightarrow> (Inl (HTTPException 500), db)
     | Some t \<Rightarrow>
         if fits_float (de_duration_seconds event)
         then (Inr ''Event recorded successfully'',
               db\<lparr>document_events :=
                    Some (t\<lparr>rows := rows t @ [document_row_of new_id now event]\<rparr>)\<rparr>)
         else (Inl (HTTPException 500), db))"

definition blockchain_row_of :: "uuid \<Rightarrow> timestamp \<Rightarrow> BlockchainEvent \<Rightarrow> blockchain_row" where
  "blockchain_row_of new_id now event =
    \<lparr>br_id = Some new_id, br_user_id = be_user_id event,
     br_document_id = be_document_id event, br_transaction_id = be_transaction_id event,
     br_network = be_network event, br_transaction_type = be_transaction_type event,
     br_duration_seconds = be_duration_seconds event, br_status = be_status event,
     br_gas_used = be_gas_used event, br_metadata = be_metadata event,
     br_created_at = Some now\<rparr>"

text \<open>\<^verbatim>\<open>record_blockchain_event\<close>, from the converted identifiers on.\<close>

definition record_blockchain_event ::
  "database \<Rightarrow> uuid \<Rightarrow> timestamp \<Rightarrow> BlockchainEvent \<Rightarrow> (error + string) \<times> database" where
  "record_blockchain_event db new_id now event =
    (case blockchain_events db of
       None \<Rightarrow> (Inl (HTTPException 500), db)
     | Some t \<Rightarrow>
         if fits_float (be_duration_seconds event) \<and> fits_bigint (be_gas_used event)
         then (Inr ''Event recorded successfully'',
               db\<lparr>blockchain_events :=
                    Some (t\<lparr>rows := rows t @ [blockchain_row_of new_id now event]\<rparr>)\<rparr>)
         else (Inl (HTTPException 500), db))"

text \<open>
  The two handlers as the framework calls them, with the model object: the conversion of
  the identifiers fails the statement like any other failure.
\<close>

definition handle_document_event ::
  "(string \<Rightarrow> uuid option) \<Rightarrow> database \<Rightarrow> uuid \<Rightarrow> timestamp \<Rightarrow> DocumentEvent_model
     \<Rightarrow> (error + string) \<times> database" where
  "handle_document_event to_uuid db new_id now m =
    (case bind_DocumentEvent to_uuid m of
       None \<Rightarrow> (Inl (HTTPException 500), db)
     | Some event \<Rightarrow> record_document_event db new_id now event)"

definition handle_blockchain_event ::
  "(string \<Rightarrow> uuid option) \<Rightarrow> database \<Rightarrow> uuid \<Rightarrow> timestamp \<Rightarrow> BlockchainEvent_model
     \<Rightarrow> (error + string) \<times> database" where
  "handle_blockchain_event to_uuid db new_id now m =
    (case bind_BlockchainEvent to_uuid m of
       None \<Rightarrow> (Inl (HTTPException 500), db)
     | Some event \<Rightarrow> record_blockchain_event db new_id now event)"

text \<open>The two \<^verbatim>\<open>POST\<close> routes: the framework's validation, then the handler.\<close>

definition post_events_document ::
  "(string \<Rightarrow> uuid option) \<Rightarrow> database \<Rightarrow> uuid \<Rightarrow> timestamp \<Rightarrow> DocumentEvent_body
     \<Rightarrow> (error + string) \<times> database" where
  "post_events_document to_uuid db new_id now body =
    (case parse_DocumentEvent body of
       Inl e \<Rightarrow> (Inl e, db)
     | Inr m \<Rightarrow> handle_document_event to_uuid db new_id now m)"

definition post_events_blockchain ::
  "(string \<Rightarrow> uuid option) \<Rightarrow> database \<Rightarrow> uuid \<Rightarrow> timestamp \<Rightarrow> BlockchainEvent_body
     \<Rightarrow> (error + string) \<times> database" where
  "post_events_blockchain to_uuid db new_id now body =
    (case parse_BlockchainEvent body of
       Inl e \<Rightarrow> (Inl e, db)
     | Inr m \<Rightarrow> handle_blockchain_event to_uuid db new_id now m)"

section \<open>SQL aggregates and Python's shaping of their results\<close>

fun non_null :: "'a option list \<Rightarrow> 'a list" where
  "non_null [] = []"
| "non_null (None # vs) = non_null vs"
| "non_null (Some x # vs) = x # non_null vs"

text \<open>\<^verbatim>\<open>AVG\<close> and \<^verbatim>\<open>SUM\<close> skip \<^verbatim>\<open>NULL\<close>s and are \<^verbatim>\<open>NULL\<close> when nothing is left.\<close>

definition sql_avg :: "rat option list \<Rightarrow> rat option" where
  "sql_avg vs =
    (let xs = non_null vs
     in if xs = [] then None else Some (sum_list xs / of_nat (length xs)))"

definition sql_sum :: "int option list \<Rightarrow> int option" where
  "sql_sum vs = (let xs = non_null vs in if xs = [] then None else Some (sum_list xs))"

text \<open>\<^verbatim>\<open>COUNT(CASE WHEN p THEN 1 END)\<close> counts the rows where \<open>p\<close> holds.\<close>

definition count_when :: "('r \<Rightarrow> bool) \<Rightarrow> 'r list \<Rightarrow> nat" where
  "count_when p rs = length (filter p rs)"

text \<open>\<^verbatim>\<open>GROUP BY k\<close> with \<^verbatim>\<open>COUNT(*)\<close>: one row per distinct key, with its number of rows.\<close>

definition group_count :: "'k list \<Rightarrow> ('k \<times> nat) list" where
  "group_count ks = map (\<lambda>k. (k, count_list ks k)) (remdups ks)"

text \<open>
  \<^verbatim>\<open>ORDER BY key DESC\<close> fixes the order of rows only as far as their keys differ. The
  engine may return rows of equal key in any order, so the statement's result is a
  relation: \<open>out\<close> is a possible result for the rows \<open>rs\<close> when it holds the same rows and
  its keys never increase.
\<close>

definition order_by_desc :: "('a \<Rightarrow> 'k::linorder) \<Rightarrow> 'a list \<Rightarrow> 'a list \<Rightarrow> bool" where
  "order_by_desc key rs out \<longleftrightarrow>
    mset out = mset rs \<and> sorted_wrt (\<lambda>a b. key b \<le> key a) out"

text \<open>Python's \<^verbatim>\<open>x or 0\<close> on an aggregate: \<^verbatim>\<open>None\<close> (and zero) become \<open>0\<close>.\<close>

definition or_0 :: "'a::zero option \<Rightarrow> 'a" where
  "or_0 v = (case v of None \<Rightarrow> 0 | Some x \<Rightarrow> x)"

text \<open>Python's \<^verbatim>\<open>round(x, 2)\<close>: to the nearest hundredth, a tie going to the even one.\<close>

definition round_half_even :: "rat \<Rightarrow> int" where
  "round_half_even x =
    (let f = \<lfloor>x\<rfloor>; d = x - of_int f
     in if d < 1 / 2 then f
        else if 1 / 2 < d then f + 1
        else if even f then f else f + 1)"

definition round2 :: "rat \<Rightarrow> rat" where
  "round2 x = of_int (round_half_even (x * 100)) / 100"

section \<open>Calendar days\<close>

definition day_us :: int where
  "day_us = 86400000000"

text \<open>\<^verbatim>\<open>DATE_TRUNC('day', t)\<close>: midnight of the day of \<open>t\<close>.\<close>

definition date_trunc_day :: "timestamp \<Rightarrow> timestamp" where
  "date_trunc_day t = t - t mod day_us"

text \<open>\<^verbatim>\<open>CURRENT_DATE\<close> at a statement run at \<open>now\<close>, as the timestamp of its midnight.\<close>

definition current_date :: "timestamp \<Rightarrow> timestamp" where
  "current_date now = date_trunc_day now"

section \<open>Reads: the five statements of \<^verbatim>\<open>get_user_analytics\<close>\<close>

definition doc_stats :: "document_row list \<Rightarrow> uuid \<Rightarrow> nat \<times> nat \<times> nat \<times> rat option \<times> nat" where
  "doc_stats rs user_id =
    (let m = filter (\<lambda>r. dr_user_id r = user_id) rs
     in (length m,
         count_when (\<lambda>r. dr_status r = ''success'') m,
         count_when (\<lambda>r. dr_status r = ''error'') m,
         sql_avg (map dr_duration_seconds m),
         count_when (\<lambda>r. dr_event_type r = ''status_change'') m))"

text \<open>The rows of \<^verbatim>\<open>doc_types\<close> are \<open>(document_type, count)\<close>, ordered by \<open>count\<close> only.\<close>

definition doc_type_groups :: "document_row list \<Rightarrow> uuid \<Rightarrow> (string \<times> nat) list" where
  "doc_type_groups rs user_id =
    group_count (non_null (map dr_document_type (filter (\<lambda>r. dr_user_id r = user_id) rs)))"

definition doc_types :: "document_row list \<Rightarrow> uuid \<Rightarrow> (string \<times> nat) list \<Rightarrow> bool" where
  "doc_types rs user_id out \<longleftrightarrow> order_by_desc snd (doc_type_groups rs user_id) out"

text \<open>
  \<^verbatim>\<open>WHERE user_id = ? AND created_at >= cutoff\<close>: the user's rows whose \<^verbatim>\<open>created_at\<close> is
  not \<^verbatim>\<open>NULL\<close> and not before the cutoff, each with that timestamp.
\<close>

definition since :: "timestamp \<Rightarrow> uuid \<Rightarrow> document_row list \<Rightarrow> (document_row \<times> timestamp) list" where
  "since cutoff user_id rs =
    List.map_filter
      (\<lambda>r. if dr_user_id r = user_id
           then (case dr_created_at r of
                   None \<Rightarrow> None
                 | Some t \<Rightarrow> if cutoff \<le> t then Some (r, t) else None)
           else None) rs"

text \<open>The rows of \<^verbatim>\<open>recent_activity\<close> are \<open>(event_type, count, date)\<close>.\<close>

definition recent_activity_groups ::
  "document_row list \<Rightarrow> timestamp \<Rightarrow> uuid \<Rightarrow> (string \<times> nat \<times> timestamp) list" where
  "recent_activity_groups rs now user_id =
    map (\<lambda>((e, d), c). (e, c, d))
      (group_count
        (map (\<lambda>(r, t). (dr_event_type r, date_trunc_day t))
          (since (current_date now - 30 * day_us) user_id rs)))"

text \<open>\<^verbatim>\<open>ORDER BY date DESC LIMIT 30\<close>: the first 30 rows of some admissible ordering.\<close>

definition recent_activity ::
  "document_row list \<Rightarrow> timestamp \<Rightarrow> uuid \<Rightarrow> (string \<times> nat \<times> timestamp) list \<Rightarrow> bool" where
  "recent_activity rs now user_id out \<longleftrightarrow>
    (\<exists>ordered. order_by_desc (\<lambda>(e, c, d). d) (recent_activity_groups rs now user_id) ordered
       \<and> out = take 30 ordered)"

definition blockchain_stats :: "blockchain_row list \<Rightarrow> uuid \<Rightarrow> nat \<times> nat \<times> rat option \<times> int option" where
  "blockchain_stats rs user_id =
    (let m = filter (\<lambda>r. br_user_id r = user_id) rs
     in (length m,
         count_when (\<lambda>r. br_status r = ''success'') m,
         sql_avg (map br_duration_seconds m),
         sql_sum (map br_gas_used m)))"

text \<open>
  The rows of \<^verbatim>\<open>performance_trend\<close> are \<open>(date, avg_duration, event_count)\<close>. The date is
  the group's key, so \<^verbatim>\<open>ORDER BY date\<close> leaves no two rows of equal key.
\<close>

definition performance_trend ::
  "document_row list \<Rightarrow> timestamp \<Rightarrow> uuid \<Rightarrow> (timestamp \<times> rat option \<times> nat) list" where
  "performance_trend rs now user_id =
    (let w = since (current_date now - 7 * day_us) user_id rs;
         days = remdups (map (\<lambda>(r, t). date_trunc_day t) w)
     in sort_key fst
          (map (\<lambda>d. let g = filter (\<lambda>(r, t). date_trunc_day t = d) w
                    in (d, sql_avg (map (\<lambda>(r, t). dr_duration_seconds r) g), length g))
             days))"

section \<open>Responses\<close>

record documents_summary =
  total' :: nat
  successful :: nat
  failed :: nat
  avg_generation_time :: rat
  status_changes :: nat

record blockchain_summary =
  total_transactions :: nat
  successful_transactions :: nat
  avg_transaction_time :: rat
  total_gas_used :: int

text \<open>
  The dates of the two lists are kept as timestamps: \<^verbatim>\<open>str\<close>, which prints them, is not
  modelled.
\<close>

record user_analytics =
  ua_user_id :: uuid
  ua_documents :: documents_summary
  ua_document_types :: "(string \<times> nat) list"
  ua_recent_activity :: "(string \<times> nat \<times> timestamp) list"
  ua_blockchain :: blockchain_summary
  ua_performance_trend :: "(timestamp \<times> rat \<times> nat) list"

record system_analytics =
  total_users :: nat
  total_documents :: nat
  system_total_transactions :: nat
  avg_document_generation_time :: rat
  avg_blockchain_transaction_time :: rat

text \<open>
  The \<^verbatim>\<open>documents\<close> and \<^verbatim>\<open>blockchain\<close> objects of the answer. A \<^verbatim>\<open>COUNT\<close> is never \<^verbatim>\<open>NULL\<close>
  and \<^verbatim>\<open>0 or 0\<close> is \<open>0\<close>, so \<^verbatim>\<open>or 0\<close> leaves a count as it is.
\<close>

definition documents_of :: "nat \<times> nat \<times> nat \<times> rat option \<times> nat \<Rightarrow> documents_summary" where
  "documents_of row =
    (case row of (c0, c1, c2, a, c4) \<Rightarrow>
       \<lparr>total' = c0, successful = c1, failed = c2,
        avg_generation_time = round2 (or_0 a), status_changes = c4\<rparr>)"

definition blockchain_of :: "nat \<times> nat \<times> rat option \<times> int option \<Rightarrow> blockchain_summary" where
  "blockchain_of row =
    (case row of (c0, c1, a, g) \<Rightarrow>
       \<lparr>total_transactions = c0, successful_transactions = c1,
        avg_transaction_time = round2 (or_0 a), total_gas_used = or_0 g\<rparr>)"

text \<open>
  \<^verbatim>\<open>get_user_analytics\<close>. Two of its statements leave the order of tied rows to the
  engine, so the model says which outcomes a call can have: \<open>get_user_analytics db now u res\<close>
  holds when \<open>res\<close> is a possible outcome of the call made at time \<open>now\<close>. A statement on
  a table that does not exist fails, and the handler answers with status 500.
\<close>

definition get_user_analytics ::
  "database \<Rightarrow> timestamp \<Rightarrow> uuid \<Rightarrow> error + user_analytics \<Rightarrow> bool" where
  "get_user_analytics db now user_id res =
    (case (document_events db, blockchain_events db) of
       (Some dt, Some bt) \<Rightarrow>
         (case res of
            Inl e \<Rightarrow> False
          | Inr r \<Rightarrow>
              ua_user_id r = user_id \<and>
              ua_documents r = documents_of (doc_stats (rows dt) user_id) \<and>
              doc_types (rows dt) user_id (ua_document_types r) \<and>
              recent_activity (rows dt) now user_id (ua_recent_activity r) \<and>
              ua_blockchain r = blockchain_of (blockchain_stats (rows bt) user_id) \<and>
              ua_performance_trend r =
                map (\<lambda>(d, a, n). (d, round2 (or_0 a), n))
                  (performance_trend (rows dt) now user_id))
     | _ \<Rightarrow> res = Inl (HTTPException 500))"

section \<open>Reads: \<^verbatim>\<open>get_system_analytics\<close>\<close>

definition system_stats ::
  "document_row list \<Rightarrow> blockchain_row list \<Rightarrow> nat \<times> nat \<times> nat \<times> rat option \<times> rat option" where
  "system_stats ds bs =
    (length (remdups (map dr_user_id ds)),
     length (filter (\<lambda>r. dr_event_type r = ''generation'') ds),
     length bs,
     sql_avg (map dr_duration_seconds
       (filter (\<lambda>r. dr_event_type r = ''generation'' \<and> dr_status r = ''success'') ds)),
     sql_avg (map br_duration_seconds (filter (\<lambda>r. br_status r = ''success'') bs)))"

definition get_system_analytics :: "database \<Rightarrow> error + system_analytics" where
  "get_system_analytics db =
    (case (document_events db, blockchain_events db) of
       (Some dt, Some bt) \<Rightarrow>
         (case system_stats (rows dt) (rows bt) of (u, d, t, a, b) \<Rightarrow>
            Inr \<lparr>total_users = u, total_documents = d, system_total_transactions = t,
                 avg_document_generation_time = or_0 a,
                 avg_blockchain_transaction_time = or_0 b\<rparr>)
     | _ \<Rightarrow> Inl (HTTPException 500))"

section \<open>The route \<^verbatim>\<open>GET /analytics/user/{user_id}\<close>\<close>

text \<open>
  The handler takes the path segment as \<^verbatim>\<open>user_id: str\<close>, passes the text to each of the
  five statements and returns it under the key \<^verbatim>\<open>user_id\<close>. The answer as the caller sees
  it:
\<close>

record user_response =
  rs_user_id :: string
  rs_documents :: documents_summary
  rs_document_types :: "(string \<times> nat) list"
  rs_recent_activity :: "(string \<times> nat \<times> timestamp) list"
  rs_blockchain :: blockchain_summary
  rs_performance_trend :: "(timestamp \<times> rat \<times> nat) list"

definition analytics_of :: "uuid \<Rightarrow> user_response \<Rightarrow> user_analytics" where
  "analytics_of u a =
    \<lparr>ua_user_id = u, ua_documents = rs_documents a,
     ua_document_types = rs_document_types a, ua_recent_activity = rs_recent_activity a,
     ua_blockchain = rs_blockchain a, ua_performance_trend = rs_performance_trend a\<rparr>"

text \<open>The answer when every statement finds no row.\<close>

definition no_rows_response :: "string \<Rightarrow> user_response" where
  "no_rows_response user_id =
    \<lparr>rs_user_id = user_id,
     rs_documents = \<lparr>total' = 0, successful = 0, failed = 0, avg_generation_time = 0,
       status_changes = 0\<rparr>,
     rs_document_types = [],
     rs_recent_activity = [],
     rs_blockchain = \<lparr>total_transactions = 0, successful_transactions = 0,
       avg_transaction_time = 0, total_gas_used = 0\<rparr>,
     rs_performance_trend = []\<rparr>"

text \<open>
  Each statement compares the \<^verbatim>\<open>UUID\<close> column with the text, which the engine converts
  with \<open>to_uuid\<close> when it evaluates the comparison on a row. For the text of a UUID the
  outcomes are those of \<open>get_user_analytics\<close> at the converted identifier. For text that is
  no UUID a statement fails as soon as its table holds a row, whoever the row belongs to,
  and the handler answers with status 500; on empty tables no comparison is evaluated and
  every statement finds no row.
\<close>

definition get_analytics_user ::
  "(string \<Rightarrow> uuid option) \<Rightarrow> database \<Rightarrow> timestamp \<Rightarrow> string \<Rightarrow> error + user_response \<Rightarrow> bool" where
  "get_analytics_user to_uuid db now user_id res =
    (case to_uuid user_id of
       Some u \<Rightarrow>
         (case res of
            Inl e \<Rightarrow> get_user_analytics db now u (Inl e)
          | Inr a \<Rightarrow> rs_user_id a = user_id \<and> get_user_analytics db now u (Inr (analytics_of u a)))
     | None \<Rightarrow>
         (case (document_events db, blockchain_events db) of
            (Some dt, Some bt) \<Rightarrow>
              if rows dt = [] \<and> rows bt = [] then res = Inr (no_rows_response user_id)
              else res = Inl (HTTPException 500)
          | _ \<Rightarrow> res = Inl (HTTPException 500)))"

section \<open>The spec's reading of \<^verbatim>\<open>total_users\<close>\<close>

text \<open>
  The spec counts the distinct \<^verbatim>\<open>user_id\<close> values across any of the event tables. This
  definition follows the spec's words, for comparison with \<open>system_stats\<close>, which follows
  the statement the service runs.
\<close>

definition spec_distinct_users :: "database \<Rightarrow> nat" where
  "spec_distinct_users db =
    card ((case document_events db of None \<Rightarrow> {} | Some t \<Rightarrow> dr_user_id ` set (rows t)) \<union>
          (case blockchain_events db of None \<Rightarrow> {} | Some t \<Rightarrow> br_user_id ` set (rows t)) \<union>
          (case user_sessions db of None \<Rightarrow> {} | Some t \<Rightarrow> sr_user_id ` set (rows t)))"

section \<open>An example of a conversion\<close>

text \<open>
  The theorems below hold for every conversion \<open>to_uuid\<close>. The closed examples use this
  one: 32 hexadecimal digits, hyphens skipped, read as a number.
\<close>

definition hex_digit :: "char \<Rightarrow> nat option" where
  "hex_digit c =
    (let n = of_char c :: nat
     in if 48 \<le> n \<and> n \<le> 57 then Some (n - 48)
        else if 97 \<le> n \<and> n \<le> 102 then Some (n - 87)
        else if 65 \<le> n \<and> n \<le> 70 then Some (n - 55)
        else None)"

definition to_uuid_ex :: "string \<Rightarrow> uuid option" where
  "to_uuid_ex text =
    (let ds = map hex_digit (filter (\<lambda>c. c \<noteq> CHR ''-'') text)
     in if length ds = 32 \<and> None \<notin> set ds
        then Some (of_nat (foldl (\<lambda>a d. 16 * a + d) 0 (non_null ds)))
        else None)"

section \<open>Example states\<close>

definition empty_database :: database where
  "empty_database = \<lparr>document_events = None, blockchain_events = None, user_sessions = None\<rparr>"

definition fresh_database :: database where
  "fresh_database = init_database empty_database"

definition doc_event ::
  "uuid \<Rightarrow> string \<Rightarrow> string option \<Rightarrow> rat option \<Rightarrow> string \<Rightarrow> DocumentEvent" where
  "doc_event u e ty d s =
    \<lparr>de_user_id = u, de_document_id = None, de_event_type = e,
     de_document_type = ty, de_ai_service = None, de_duration_seconds = d,
     de_status = s, de_metadata = None\<rparr>"

text \<open>The row an insert of \<open>doc_event u e ty d s\<close> at time \<open>t\<close> stores.\<close>

definition doc_row ::
  "uuid \<Rightarrow> string \<Rightarrow> string option \<Rightarrow> rat option \<Rightarrow> string \<Rightarrow> timestamp \<Rightarrow> document_row" where
  "doc_row u e ty d s t = document_row_of 0 t (doc_event u e ty d s)"

definition bc_row :: "uuid \<Rightarrow> rat option \<Rightarrow> string \<Rightarrow> int option \<Rightarrow> timestamp \<Rightarrow> blockchain_row" where
  "bc_row u d s g t =
    blockchain_row_of 0 t
      \<lparr>be_user_id = u, be_document_id = None, be_transaction_id = None,
       be_network = ''hedera'', be_transaction_type = ''anchor'', be_duration_seconds = d,
       be_status = s, be_gas_used = g, be_metadata = None\<rparr>"

definition database_of :: "document_row list \<Rightarrow> blockchain_row list \<Rightarrow> database" where
  "database_of ds bs =
    \<lparr>document_events = Some \<lparr>columns = document_events_columns, rows = ds\<rparr>,
     blockchain_events = Some \<lparr>columns = blockchain_events_columns, rows = bs\<rparr>,
     user_sessions = Some \<lparr>columns = user_sessions_columns, rows = []\<rparr>\<rparr>"

text \<open>A query time: 01:00 on day 100 after the epoch.\<close>

definition now_ex :: timestamp where
  "now_ex = 100 * day_us + 3600000000"

text \<open>Five document events of three users and three transactions of two, 29 days old.\<close>

definition rows_ex :: "document_row list" where
  "rows_ex =
    [doc_row 1 ''generation'' (Some ''contract'') (Some (5 / 2)) ''success'' (now_ex - 29 * day_us),
     doc_row 1 ''generation'' (Some ''contract'') None ''error'' (now_ex - 29 * day_us),
     doc_row 1 ''upload'' (Some ''invoice'') None ''pending'' (now_ex - 29 * day_us),
     doc_row 2 ''generation'' None (Some 1) ''success'' (now_ex - 29 * day_us),
     doc_row 3 ''status_change'' None None ''success'' (now_ex - 29 * day_us)]"

definition chain_ex :: "blockchain_row list" where
  "chain_ex =
    [bc_row 1 (Some 4) ''success'' (Some 21000) (now_ex - 29 * day_us),
     bc_row 1 None ''success'' None (now_ex - 29 * day_us),
     bc_row 2 (Some 1) ''error'' None (now_ex - 29 * day_us)]"

definition db_ex :: database where
  "db_ex = database_of rows_ex chain_ex"

definition answer_ex :: user_analytics where
  "answer_ex =
    \<lparr>ua_user_id = 1,
     ua_documents = \<lparr>total' = 3, successful = 1, failed = 1, avg_generation_time = 5 / 2,
       status_changes = 0\<rparr>,
     ua_document_types = [(''contract'', 2), (''invoice'', 1)],
     ua_recent_activity = [(''generation'', 2, 71 * day_us), (''upload'', 1, 71 * day_us)],
     ua_blockchain = \<lparr>total_transactions = 2, successful_transactions = 2,
       avg_transaction_time = 4, total_gas_used = 21000\<rparr>,
     ua_performance_trend = []\<rparr>"

definition system_ex :: system_analytics where
  "system_ex =
    \<lparr>total_users = 3, total_documents = 3, system_total_transactions = 3,
     avg_document_generation_time = 7 / 4, avg_blockchain_transaction_time = 4\<rparr>"

text \<open>Three users with transactions and no document event.\<close>

definition db_chain_only :: database where
  "db_chain_only = database_of []
     [bc_row 1 (Some 4) ''success'' None 0,
      bc_row 2 None ''success'' None 0,
      bc_row 3 None ''error'' (Some 21000) 0,
      bc_row 3 None ''success'' None 0]"

text \<open>One successful generation that took an eighth of a second.\<close>

definition db_eighth :: database where
  "db_eighth = database_of [doc_row 1 ''generation'' None (Some (1 / 8)) ''success'' 0] []"

text \<open>Two document types with one event each.\<close>

definition rows_tie :: "document_row list" where
  "rows_tie =
    [doc_row 1 ''generation'' (Some ''invoice'') None ''success'' 0,
     doc_row 1 ''generation'' (Some ''contract'') None ''success'' 0]"

definition db_tie :: database where
  "db_tie = database_of rows_tie []"

definition answer_tie :: "(string \<times> nat) list \<Rightarrow> user_analytics" where
  "answer_tie types =
    \<lparr>ua_user_id = 1,
     ua_documents = \<lparr>total' = 2, successful = 2, failed = 0, avg_generation_time = 0,
       status_changes = 0\<rparr>,
     ua_document_types = types,
     ua_recent_activity = [],
     ua_blockchain = \<lparr>total_transactions = 0, successful_transactions = 0,
       avg_transaction_time = 0, total_gas_used = 0\<rparr>,
     ua_performance_trend = []\<rparr>"

text \<open>
  One event 29 days before \<open>now_ex\<close>, then thirty events of thirty event types on the day
  of \<open>now_ex\<close>.
\<close>

definition rows_many :: "document_row list" where
  "rows_many =
    doc_row 1 ''signature'' None None ''success'' (now_ex - 29 * day_us) #
    map (\<lambda>c. doc_row 1 [c] None None ''success'' (100 * day_us))
      ''abcdefghijklmnopqrstuvwxyzABCD''"

definition db_many :: database where
  "db_many = database_of rows_many []"

definition answer_many :: user_analytics where
  "answer_many =
    \<lparr>ua_user_id = 1,
     ua_documents = \<lparr>total' = 31, successful = 31, failed = 0, avg_generation_time = 0,
       status_changes = 0\<rparr>,
     ua_document_types = [],
     ua_recent_activity = map (\<lambda>c. ([c], 1, 100 * day_us)) ''abcdefghijklmnopqrstuvwxyzABCD'',
     ua_blockchain = \<lparr>total_transactions = 0, successful_transactions = 0,
       avg_transaction_time = 0, total_gas_used = 0\<rparr>,
     ua_performance_trend = [(100 * day_us, 0, 30)]\<rparr>"

text \<open>One event 30 days and 30 minutes before \<open>now_ex\<close>: at 00:30 on day 70.\<close>

definition db_edge :: database where
  "db_edge = database_of
     [doc_row 1 ''upload'' None None ''success'' (now_ex - 30 * day_us - 1800000000)] []"

definition answer_edge :: user_analytics where
  "answer_edge =
    \<lparr>ua_user_id = 1,
     ua_documents = \<lparr>total' = 1, successful = 1, failed = 0, avg_generation_time = 0,
       status_changes = 0\<rparr>,
     ua_document_types = [],
     ua_recent_activity = [(''upload'', 1, 70 * day_us)],
     ua_blockchain = \<lparr>total_transactions = 0, successful_transactions = 0,
       avg_transaction_time = 0, total_gas_used = 0\<rparr>,
     ua_performance_trend = []\<rparr>"

text \<open>The text of the identifier of user 1.\<close>

definition user_1_text :: string where
  "user_1_text = ''00000000-0000-0000-0000-000000000001''"

text \<open>
  Request bodies: one whose status is the empty string, one whose network and
  transaction type are empty, two that lack a field and one whose duration is no number.
\<close>

definition empty_status_body :: DocumentEvent_body where
  "empty_status_body =
    \<lparr>deb_user_id = Given user_1_text, deb_document_id = Missing,
     deb_event_type = Given ''generation'', deb_document_type = Missing,
     deb_ai_service = Missing, deb_duration_seconds = Missing,
     deb_status = Given [], deb_metadata = Missing\<rparr>"

definition empty_network_body :: BlockchainEvent_body where
  "empty_network_body =
    \<lparr>beb_user_id = Given user_1_text, beb_document_id = Missing,
     beb_transaction_id = Missing, beb_network = Given [],
     beb_transaction_type = Given [], beb_duration_seconds = Missing,
     beb_status = Given ''success'', beb_gas_used = Given 21000, beb_metadata = Missing\<rparr>"

definition missing_status_body :: DocumentEvent_body where
  "missing_status_body =
    \<lparr>deb_user_id = Given user_1_text, deb_document_id = Missing,
     deb_event_type = Given ''generation'', deb_document_type = Missing,
     deb_ai_service = Missing, deb_duration_seconds = Missing,
     deb_status = Missing, deb_metadata = Missing\<rparr>"

definition missing_network_body :: BlockchainEvent_body where
  "missing_network_body =
    \<lparr>beb_user_id = Given user_1_text, beb_document_id = Missing,
     beb_transaction_id = Missing, beb_network = Missing,
     beb_transaction_type = Given ''anchor'', beb_duration_seconds = Missing,
     beb_status = Given ''success'', beb_gas_used = Missing, beb_metadata = Missing\<rparr>"

definition ill_typed_duration_body :: DocumentEvent_body where
  "ill_typed_duration_body =
    \<lparr>deb_user_id = Given user_1_text, deb_document_id = Missing,
     deb_event_type = Given ''generation'', deb_document_type = Missing,
     deb_ai_service = Missing, deb_duration_seconds = Ill_typed,
     deb_status = Given ''success'', deb_metadata = Missing\<rparr>"

section \<open>Facts about the aggregates\<close>

lemma set_non_null: "x \<in> set (non_null vs) \<longleftrightarrow> Some x \<in> set vs"
  by (induction vs rule: non_null.induct) auto

lemma count_non_null_map:
  "count_list (non_null (map f xs)) t = length (filter (\<lambda>r. f r = Some t) xs)"
proof (induction xs)
  case Nil
  then show ?case by simp
next
  case (Cons a xs)
  then show ?case by (cases "f a") auto
qed

lemma group_count_keys: "map fst (group_count ks) = remdups ks"
  by (simp add: group_count_def comp_def)

lemma group_count_mem:
  "(k, c) \<in> set (group_count ks) \<longleftrightarrow> k \<in> set ks \<and> c = count_list ks k"
  by (auto simp: group_count_def)

lemma count_list_pos: "k \<in> set ks \<Longrightarrow> 0 < count_list ks k"
  using count_list_0_iff [of ks k] by simp

lemma order_by_desc_exists: "order_by_desc key rs (rev (sort_key key rs))"
proof -
  have "sorted (map key (sort_key key rs))"
    by (rule sorted_sort_key)
  then have "sorted_wrt (\<lambda>a b. key a \<le> key b) (sort_key key rs)"
    by (simp only: sorted_map)
  then have "sorted_wrt (\<lambda>a b. key b \<le> key a) (rev (sort_key key rs))"
    by (simp only: sorted_wrt_rev)
  then show ?thesis
    by (simp add: order_by_desc_def)
qed

lemma order_by_desc_set: "order_by_desc key rs out \<Longrightarrow> set out = set rs"
  unfolding order_by_desc_def by (blast dest: mset_eq_setD)

lemma order_by_desc_length: "order_by_desc key rs out \<Longrightarrow> length out = length rs"
  unfolding order_by_desc_def by (blast dest: mset_eq_length)

lemma order_by_desc_distinct:
  assumes "order_by_desc key rs out"
  shows "distinct (map f out) \<longleftrightarrow> distinct (map f rs)"
proof -
  from assms have "mset (map f out) = mset (map f rs)"
    by (simp add: order_by_desc_def)
  then show ?thesis by (rule mset_eq_imp_distinct_iff)
qed




lemma day_us_pos: "0 < day_us"
  by (simp add: day_us_def)

lemma date_trunc_day_le: "date_trunc_day t \<le> t"
  using day_us_pos by (simp add: date_trunc_day_def)

lemma date_trunc_day_gt: "t < date_trunc_day t + day_us"
  using day_us_pos by (simp add: date_trunc_day_def)

lemma date_trunc_day_dvd: "day_us dvd date_trunc_day t"
proof -
  have "date_trunc_day t = (t div day_us) * day_us"
    by (simp add: date_trunc_day_def minus_mod_eq_div_mult)
  then show ?thesis by simp
qed

lemma date_trunc_day_fixed: "day_us dvd m \<Longrightarrow> date_trunc_day m = m"
  by (simp add: date_trunc_day_def dvd_eq_mod_eq_0)

lemma date_trunc_day_mono: "s \<le> t \<Longrightarrow> date_trunc_day s \<le> date_trunc_day t"
proof -
  assume "s \<le> t"
  have eq: "\<And>x. date_trunc_day x = (x div day_us) * day_us"
    by (simp add: date_trunc_day_def minus_mod_eq_div_mult)
  from \<open>s \<le> t\<close> have "s div day_us \<le> t div day_us"
    using day_us_pos by (simp add: zdiv_mono1)
  then show ?thesis
    using day_us_pos by (simp add: eq mult_right_mono)
qed

lemma since_mem:
  "(x, t) \<in> set (since cutoff u rs) \<longleftrightarrow>
     x \<in> set rs \<and> dr_user_id x = u \<and> dr_created_at x = Some t \<and> cutoff \<le> t"
  by (induction rs) (auto simp: since_def split: option.splits)

lemma since_Nil: "\<forall>x\<in>set rs. dr_user_id x \<noteq> u \<Longrightarrow> since cutoff u rs = []"
  by (induction rs) (auto simp: since_def)

lemma count_since:
  "count_list (map (\<lambda>(r, t). (dr_event_type r, date_trunc_day t)) (since cutoff u rs)) (e, d) =
   length (filter (\<lambda>x. dr_user_id x = u \<and> dr_event_type x = e \<and>
      (case dr_created_at x of None \<Rightarrow> False | Some t \<Rightarrow> cutoff \<le> t \<and> date_trunc_day t = d)) rs)"
  by (induction rs) (auto simp: since_def split: option.splits)

lemma recent_activity_groups_mem:
  "(e, c, d) \<in> set (recent_activity_groups rs now u) \<longleftrightarrow>
     (\<exists>x t. x \<in> set rs \<and> dr_user_id x = u \<and> dr_created_at x = Some t \<and>
        current_date now - 30 * day_us \<le> t \<and> dr_event_type x = e \<and> date_trunc_day t = d) \<and>
     c = length (filter (\<lambda>x. dr_user_id x = u \<and> dr_event_type x = e \<and>
      (case dr_created_at x of None \<Rightarrow> False
       | Some t \<Rightarrow> current_date now - 30 * day_us \<le> t \<and> date_trunc_day t = d)) rs)"
proof -
  let ?w = "since (current_date now - 30 * day_us) u rs"
  let ?ks = "map (\<lambda>(r, t). (dr_event_type r, date_trunc_day t)) ?w"
  have "(e, c, d) \<in> set (recent_activity_groups rs now u) \<longleftrightarrow> ((e, d), c) \<in> set (group_count ?ks)"
    by (force simp: recent_activity_groups_def)
  also have "\<dots> \<longleftrightarrow> (e, d) \<in> set ?ks \<and> c = count_list ?ks (e, d)"
    by (rule group_count_mem)
  also have "(e, d) \<in> set ?ks \<longleftrightarrow>
     (\<exists>x t. x \<in> set rs \<and> dr_user_id x = u \<and> dr_created_at x = Some t \<and>
        current_date now - 30 * day_us \<le> t \<and> dr_event_type x = e \<and> date_trunc_day t = d)"
    by (force simp: since_mem)
  finally show ?thesis
    by (simp only: count_since)
qed

lemma take_sorted_desc_excludes:
  fixes key :: "'a \<Rightarrow> 'k::linorder"
  assumes sorted: "sorted_wrt (\<lambda>a b. key b \<le> key a) xs"
    and many: "n \<le> length (filter (\<lambda>y. key x < key y) xs)"
  shows "x \<notin> set (take n xs)"
proof
  assume "x \<in> set (take n xs)"
  then obtain j where j: "j < length (take n xs)" "take n xs ! j = x"
    by (auto simp: in_set_conv_nth)
  then have jn: "j < n" and jl: "j < length xs" and xj: "xs ! j = x"
    by simp_all
  have "filter (\<lambda>y. key x < key y) (drop j xs) = []"
  proof -
    have "\<forall>y \<in> set (drop j xs). key y \<le> key x"
    proof
      fix y assume "y \<in> set (drop j xs)"
      then obtain k where k: "k < length xs - j" "xs ! (j + k) = y"
        by (auto simp: in_set_conv_nth)
      show "key y \<le> key x"
      proof (cases "k = 0")
        case True
        with k xj show ?thesis by simp
      next
        case False
        with k have "j < j + k" "j + k < length xs" by simp_all
        with sorted have "key (xs ! (j + k)) \<le> key (xs ! j)"
          by (rule sorted_wrt_nth_less [where P = "\<lambda>a b. key b \<le> key a"])
        with k xj show ?thesis by simp
      qed
    qed
    then show ?thesis by (auto simp: filter_empty_conv)
  qed
  then have "filter (\<lambda>y. key x < key y) xs = filter (\<lambda>y. key x < key y) (take j xs)"
    by (metis append_Nil2 append_take_drop_id filter_append)
  then have "length (filter (\<lambda>y. key x < key y) xs) \<le> j"
    by (metis length_filter_le length_take min.absorb2 jl less_imp_le_nat)
  with many jn show False by simp
qed

lemma order_by_desc_Nil: "order_by_desc key [] out \<longleftrightarrow> out = []"
  by (auto simp: order_by_desc_def)

lemma order_by_desc_keys:
  fixes key :: "'a \<Rightarrow> 'k::linorder"
  assumes "order_by_desc key rs out"
  shows "map key out = rev (sort (map key rs))"
proof -
  from assms have m: "mset out = mset rs" and s: "sorted_wrt (\<lambda>a b. key b \<le> key a) out"
    by (simp_all add: order_by_desc_def)
  from s have "sorted_wrt (\<lambda>a b. key a \<le> key b) (rev out)"
    by (simp add: sorted_wrt_rev)
  then have "sorted (map key (rev out))"
    by (simp only: sorted_map)
  moreover from m have "mset (map key (rev out)) = mset (map key rs)"
    by simp
  ultimately have "sort (map key rs) = map key (rev out)"
    by (rule properties_for_sort [rotated])
  then show ?thesis
    by (simp add: rev_map)
qed

lemma length_filter_mset_cong:
  assumes "mset xs = mset ys"
  shows "length (filter P xs) = length (filter P ys)"
proof -
  have "mset (filter P xs) = mset (filter P ys)"
    by (simp only: mset_filter assms)
  then show ?thesis by (rule mset_eq_length)
qed

lemma length_filter_pos: "x \<in> set xs \<Longrightarrow> P x \<Longrightarrow> 0 < length (filter P xs)"
  by (induction xs) auto

lemma filter_user_Nil: "\<forall>x\<in>set rs. f x \<noteq> u \<Longrightarrow> filter (\<lambda>r. f r = u) rs = []"
  by (induction rs) auto

lemma count_when_split:
  assumes "a \<noteq> b"
  shows "length rs = count_when (\<lambda>r. f r = a) rs + count_when (\<lambda>r. f r = b) rs
     + length (filter (\<lambda>r. f r \<noteq> a \<and> f r \<noteq> b) rs)"
  using assms unfolding count_when_def by (induction rs) auto

lemma round2_0: "round2 0 = 0"
  by (simp add: round2_def round_half_even_def)


lemma round2_five_halves: "round2 (5 / 2) = 5 / 2"
  by code_simp

lemma round2_hundredth: "\<exists>k :: int. round2 x * 100 = of_int k"
  by (simp add: round2_def)

subsection \<open>The document-type groups\<close>

lemma doc_type_groups_mem:
  "(ty, c) \<in> set (doc_type_groups rs u) \<longleftrightarrow>
     (\<exists>x\<in>set rs. dr_user_id x = u \<and> dr_document_type x = Some ty) \<and>
     c = length (filter (\<lambda>x. dr_user_id x = u \<and> dr_document_type x = Some ty) rs)"
proof -
  let ?m = "filter (\<lambda>r. dr_user_id r = u) rs"
  let ?ks = "non_null (map dr_document_type ?m)"
  have "(ty, c) \<in> set (doc_type_groups rs u) \<longleftrightarrow> ty \<in> set ?ks \<and> c = count_list ?ks ty"
    unfolding doc_type_groups_def by (rule group_count_mem)
  moreover have "ty \<in> set ?ks \<longleftrightarrow> (\<exists>x\<in>set rs. dr_user_id x = u \<and> dr_document_type x = Some ty)"
    by (auto simp: set_non_null image_iff)
  moreover have "count_list ?ks ty =
      length (filter (\<lambda>x. dr_user_id x = u \<and> dr_document_type x = Some ty) rs)"
    by (simp add: count_non_null_map conj_commute)
  ultimately show ?thesis by simp
qed

lemma doc_type_groups_distinct: "distinct (map fst (doc_type_groups rs u))"
  by (simp add: doc_type_groups_def group_count_keys)

lemma doc_types_exists: "\<exists>out. doc_types rs u out"
  unfolding doc_types_def using order_by_desc_exists by blast

subsection \<open>The 30-day window\<close>

lemma cutoff_dvd: "day_us dvd current_date now - n * day_us"
  by (simp add: current_date_def date_trunc_day_dvd)

lemma cutoff_le_date:
  assumes "current_date now - n * day_us \<le> t"
  shows "current_date now - n * day_us \<le> date_trunc_day t"
proof -
  have "date_trunc_day (current_date now - n * day_us) = current_date now - n * day_us"
    by (rule date_trunc_day_fixed) (rule cutoff_dvd)
  with date_trunc_day_mono [OF assms] show ?thesis by simp
qed

lemma window_31_29:
  "now - 31 * day_us < current_date now - 30 * day_us \<and>
   current_date now - 30 * day_us \<le> now - 29 * day_us"
  using date_trunc_day_le [of now] date_trunc_day_gt [of now] day_us_pos
  by (simp add: current_date_def)

lemma recent_activity_exists: "\<exists>out. recent_activity rs now u out"
  unfolding recent_activity_def using order_by_desc_exists by blast

lemma recent_activity_subset:
  assumes "recent_activity rs now u out"
  shows "set out \<subseteq> set (recent_activity_groups rs now u)" and "length out \<le> 30"
proof -
  from assms obtain ordered where
    o: "order_by_desc (\<lambda>(e, c, d). d) (recent_activity_groups rs now u) ordered"
    and out: "out = take 30 ordered"
    by (auto simp: recent_activity_def)
  show "set out \<subseteq> set (recent_activity_groups rs now u)"
    using order_by_desc_set [OF o] set_take_subset [of 30 ordered] by (simp add: out)
  show "length out \<le> 30" by (simp add: out)
qed

lemma recent_activity_groups_distinct:
  "distinct (map (\<lambda>(e, c, d). (e, d)) (recent_activity_groups rs now u))"
proof -
  have "map (\<lambda>(e, c, d). (e, d)) (map (\<lambda>((e, d), c). (e, c, d)) ks) = map fst ks"
    for ks :: "((string \<times> timestamp) \<times> nat) list"
    by (induction ks) auto
  then have "map (\<lambda>(e, c, d). (e, d)) (recent_activity_groups rs now u) =
      remdups (map (\<lambda>(r, t). (dr_event_type r, date_trunc_day t))
        (since (current_date now - 30 * day_us) u rs))"
    by (simp only: recent_activity_groups_def group_count_keys)
  then show ?thesis
    by (simp only: distinct_remdups)
qed

text \<open>What \<^verbatim>\<open>ORDER BY date DESC LIMIT 30\<close> keeps: the first 30 of the groups by day.\<close>

lemma recent_activity_top:
  assumes "recent_activity rs now u out"
  shows "distinct out"
    and "length out = min 30 (length (recent_activity_groups rs now u))"
    and "sorted_wrt (\<lambda>a b. (case b of (e, c, d) \<Rightarrow> d) \<le> (case a of (e, c, d) \<Rightarrow> d)) out"
    and "\<forall>g\<in>set (recent_activity_groups rs now u) - set out. \<forall>h\<in>set out.
           (case g of (e, c, d) \<Rightarrow> d) \<le> (case h of (e, c, d) \<Rightarrow> d)"
proof -
  let ?gs = "recent_activity_groups rs now u"
  let ?P = "\<lambda>a b :: string \<times> nat \<times> timestamp.
      (case b of (e, c, d) \<Rightarrow> d) \<le> (case a of (e, c, d) \<Rightarrow> d)"
  from assms obtain ordered where
    o: "order_by_desc (\<lambda>(e, c, d). d) ?gs ordered" and out: "out = take 30 ordered"
    by (auto simp: recent_activity_def)
  from o have m: "mset ordered = mset ?gs" and s: "sorted_wrt ?P ordered"
    by (simp_all add: order_by_desc_def)
  have "distinct ?gs"
    using recent_activity_groups_distinct [of rs now u] by (simp add: distinct_map)
  with m have d: "distinct ordered"
    using mset_eq_imp_distinct_iff by blast
  then show "distinct out" by (simp add: out)
  show "length out = min 30 (length ?gs)"
    using order_by_desc_length [OF o] by (simp add: out min.commute)
  from s show "sorted_wrt ?P out" by (simp add: out)
  from s have "sorted_wrt ?P (take 30 ordered @ drop 30 ordered)" by simp
  then have cut: "\<forall>x\<in>set (take 30 ordered). \<forall>y\<in>set (drop 30 ordered). ?P x y"
    by (simp only: sorted_wrt_append) blast
  have "set ?gs = set (take 30 ordered) \<union> set (drop 30 ordered)"
    using order_by_desc_set [OF o] set_append [of "take 30 ordered" "drop 30 ordered"] by simp
  with cut show "\<forall>g\<in>set ?gs - set out. \<forall>h\<in>set out.
           (case g of (e, c, d) \<Rightarrow> d) \<le> (case h of (e, c, d) \<Rightarrow> d)"
    by (auto simp: out)
qed

lemma recent_activity_all:
  assumes "recent_activity rs now u out" and "length (recent_activity_groups rs now u) \<le> 30"
  shows "set out = set (recent_activity_groups rs now u)"
proof -
  from assms(1) obtain ordered where
    o: "order_by_desc (\<lambda>(e, c, d). d) (recent_activity_groups rs now u) ordered"
    and out: "out = take 30 ordered"
    by (auto simp: recent_activity_def)
  from order_by_desc_length [OF o] assms(2) have "out = ordered"
    by (simp add: out)
  with order_by_desc_set [OF o] show ?thesis by simp
qed

subsection \<open>The outcomes of \<^verbatim>\<open>get_user_analytics\<close>\<close>

lemma get_user_analytics_Inr:
  assumes "document_events db = Some dt" and "blockchain_events db = Some bt"
  shows "get_user_analytics db now u (Inr r) \<longleftrightarrow>
    ua_user_id r = u \<and>
    ua_documents r = documents_of (doc_stats (rows dt) u) \<and>
    doc_types (rows dt) u (ua_document_types r) \<and>
    recent_activity (rows dt) now u (ua_recent_activity r) \<and>
    ua_blockchain r = blockchain_of (blockchain_stats (rows bt) u) \<and>
    ua_performance_trend r =
      map (\<lambda>(d, a, n). (d, round2 (or_0 a), n)) (performance_trend (rows dt) now u)"
  using assms by (simp add: get_user_analytics_def)

lemma get_user_analytics_tables:
  assumes "get_user_analytics db now u (Inr r)"
  obtains dt bt where "document_events db = Some dt" and "blockchain_events db = Some bt"
  using assms by (auto simp: get_user_analytics_def split: option.splits)

lemma get_user_analytics_Inl:
  assumes "document_events db = Some dt" and "blockchain_events db = Some bt"
  shows "\<not> get_user_analytics db now u (Inl e)"
  using assms by (simp add: get_user_analytics_def)

text \<open>With both tables in place the call has an outcome, and it is an answer.\<close>

lemma get_user_analytics_succeeds:
  assumes "document_events db = Some dt" and "blockchain_events db = Some bt"
  shows "\<exists>r. get_user_analytics db now u (Inr r)"
proof -
  obtain ts where ts: "doc_types (rows dt) u ts"
    using doc_types_exists by blast
  obtain ra where ra: "recent_activity (rows dt) now u ra"
    using recent_activity_exists by blast
  let ?r = "\<lparr>ua_user_id = u,
             ua_documents = documents_of (doc_stats (rows dt) u),
             ua_document_types = ts,
             ua_recent_activity = ra,
             ua_blockchain = blockchain_of (blockchain_stats (rows bt) u),
             ua_performance_trend =
               map (\<lambda>(d, a, n). (d, round2 (or_0 a), n)) (performance_trend (rows dt) now u)\<rparr>"
  have "get_user_analytics db now u (Inr ?r)"
    using ts ra by (simp add: get_user_analytics_Inr [OF assms])
  then show ?thesis ..
qed

lemma blockchain_of_avg:
  "avg_transaction_time (blockchain_of (blockchain_stats rs u)) =
     round2 (or_0 (sql_avg (map br_duration_seconds (filter (\<lambda>x. br_user_id x = u) rs))))"
  by (simp add: blockchain_of_def blockchain_stats_def Let_def)

lemma blockchain_of_empty:
  "blockchain_of (blockchain_stats [] u) =
    \<lparr>total_transactions = 0, successful_transactions = 0, avg_transaction_time = 0,
     total_gas_used = 0\<rparr>"
  by (simp add: blockchain_of_def blockchain_stats_def count_when_def sql_avg_def sql_sum_def
      or_0_def round2_0)

subsection \<open>The example state \<open>db_ex\<close>\<close>

lemma tables_ex:
  "document_events db_ex = Some \<lparr>columns = document_events_columns, rows = rows_ex\<rparr>"
  "blockchain_events db_ex = Some \<lparr>columns = blockchain_events_columns, rows = chain_ex\<rparr>"
  by (simp_all add: db_ex_def database_of_def)

lemma documents_ex: "documents_of (doc_stats rows_ex 1) = ua_documents answer_ex"
  by code_simp

lemma blockchain_ex: "blockchain_of (blockchain_stats chain_ex 1) = ua_blockchain answer_ex"
  by code_simp

lemma types_ex: "doc_type_groups rows_ex 1 = [(''contract'', 2), (''invoice'', 1)]"
  by code_simp

lemma groups_ex:
  "recent_activity_groups rows_ex now_ex 1 =
     [(''generation'', 2, 71 * day_us), (''upload'', 1, 71 * day_us)]"
  by code_simp

lemma trend_ex: "performance_trend rows_ex now_ex 1 = []"
  by code_simp

lemma example_answer: "get_user_analytics db_ex now_ex 1 (Inr answer_ex)"
proof -
  have ty: "doc_types rows_ex 1 (ua_document_types answer_ex)"
    unfolding doc_types_def types_ex by (simp add: answer_ex_def order_by_desc_def)
  have ra: "recent_activity rows_ex now_ex 1 (ua_recent_activity answer_ex)"
    unfolding recent_activity_def groups_ex
    by (rule exI [of _ "[(''generation'', 2, 71 * day_us), (''upload'', 1, 71 * day_us)]"])
      (simp add: answer_ex_def order_by_desc_def)
  show ?thesis
    unfolding get_user_analytics_Inr [OF tables_ex]
    using ty ra by (simp add: documents_ex blockchain_ex trend_ex) (simp add: answer_ex_def)
qed

section \<open>System-wide user count\<close>

text \<open>
  Claim C1, as the code has it. \<^verbatim>\<open>total_users\<close> is the number of distinct \<^verbatim>\<open>user_id\<close>
  values among the rows of \<^verbatim>\<open>document_events\<close>: the statement reads no other table. Events
  of three distinct users in that table give 3, however many events there are.
\<close>

theorem total_users_counts_document_events:
  assumes "get_system_analytics db = Inr r" and "document_events db = Some dt"
  shows "total_users r = card (dr_user_id ` set (rows dt)) \<and>
    (dr_user_id ` set (rows dt) = {a, b, c} \<and> a \<noteq> b \<and> a \<noteq> c \<and> b \<noteq> c \<longrightarrow> total_users r = 3)"
proof -
  from assms have "total_users r = length (remdups (map dr_user_id (rows dt)))"
    by (auto simp: get_system_analytics_def system_stats_def split: option.splits)
  then have "total_users r = card (dr_user_id ` set (rows dt))"
    by (simp add: length_remdups_card_conv)
  then show ?thesis by auto
qed

theorem total_users_counts_document_events_witness:
  "get_system_analytics db_ex = Inr system_ex \<and>
   dr_user_id ` set rows_ex = {1, 2, 3} \<and>
   length rows_ex = 5 \<and>
   total_users system_ex = 3"
proof -
  have g: "get_system_analytics db_ex = Inr system_ex"
    by code_simp
  have u: "dr_user_id ` set (rows \<lparr>columns = document_events_columns, rows = rows_ex\<rparr>) = {1, 2, 3}
      \<and> (1 :: uuid) \<noteq> 2 \<and> (1 :: uuid) \<noteq> 3 \<and> (2 :: uuid) \<noteq> 3"
    by (auto simp: rows_ex_def doc_row_def document_row_of_def doc_event_def)
  from total_users_counts_document_events [OF g tables_ex(1), of 1 2 3] g u show ?thesis
    by (simp add: rows_ex_def)
qed

text \<open>
  Claim C1 as stated fails: with four transactions of three users and no document event,
  three distinct users have events, and \<^verbatim>\<open>total_users\<close> is 0.
\<close>

theorem total_users_any_table_counterexample:
  "get_system_analytics db_chain_only =
     Inr \<lparr>total_users = 0, total_documents = 0, system_total_transactions = 4,
          avg_document_generation_time = 0, avg_blockchain_transaction_time = 4\<rparr> \<and>
   spec_distinct_users db_chain_only = 3"
  by (simp add: get_system_analytics_def system_stats_def db_chain_only_def database_of_def
      bc_row_def blockchain_row_of_def sql_avg_def or_0_def spec_distinct_users_def)

section \<open>Insert, then read\<close>

text \<open>
  Claim C2. In a state with both event tables and no document event of user \<open>U1\<close>,
  recording one event of \<open>U1\<close> with status \<^verbatim>\<open>success\<close>, event type \<^verbatim>\<open>generation\<close> and a
  duration of 2.5 seconds succeeds; after it the user's analytics can be read, and every
  outcome of reading them is an answer whose \<^verbatim>\<open>documents\<close> object is
  total 1, successful 1, failed 0, avg_generation_time 2.5, status_changes 0.
\<close>

theorem insert_then_read:
  assumes "document_events db = Some dt" and "blockchain_events db = Some bt"
    and "\<forall>x\<in>set (rows dt). dr_user_id x \<noteq> U1"
    and "de_user_id e = U1" and "de_status e = ''success''"
    and "de_event_type e = ''generation''" and "de_duration_seconds e = Some (5 / 2)"
  shows "fst (record_document_event db new_id t e) = Inr ''Event recorded successfully'' \<and>
    (\<exists>r. get_user_analytics (snd (record_document_event db new_id t e)) now U1 (Inr r)) \<and>
    (\<forall>res. get_user_analytics (snd (record_document_event db new_id t e)) now U1 res \<longrightarrow>
       (\<exists>r. res = Inr r \<and>
          ua_documents r = \<lparr>total' = 1, successful = 1, failed = 0,
            avg_generation_time = 5 / 2, status_changes = 0\<rparr>))"
proof -
  let ?row = "document_row_of new_id t e"
  let ?db = "snd (record_document_event db new_id t e)"
  let ?dt = "dt\<lparr>rows := rows dt @ [?row]\<rparr>"
  have fits: "fits_float (de_duration_seconds e)"
    using assms(7) by (simp add: fits_float_def)
  have ack: "fst (record_document_event db new_id t e) = Inr ''Event recorded successfully''"
    using assms(1) fits by (simp add: record_document_event_def)
  have tabs: "document_events ?db = Some ?dt" "blockchain_events ?db = Some bt"
    using assms(1,2) fits by (simp_all add: record_document_event_def)
  have old: "filter (\<lambda>r. dr_user_id r = U1) (rows dt) = []"
    using assms(3) by (rule filter_user_Nil)
  have m: "filter (\<lambda>r. dr_user_id r = U1) (rows ?dt) = [?row]"
    using assms(4) by (simp add: old document_row_of_def)
  have ds: "documents_of (doc_stats (rows ?dt) U1) =
      \<lparr>total' = 1, successful = 1, failed = 0, avg_generation_time = 5 / 2, status_changes = 0\<rparr>"
    unfolding documents_of_def doc_stats_def Let_def m
    using assms(5,6,7)
    by (simp add: count_when_def sql_avg_def or_0_def round2_five_halves document_row_of_def)
  have ex: "\<exists>r. get_user_analytics ?db now U1 (Inr r)"
    using tabs by (rule get_user_analytics_succeeds)
  have all: "\<exists>r. res = Inr r \<and> ua_documents r =
      \<lparr>total' = 1, successful = 1, failed = 0, avg_generation_time = 5 / 2, status_changes = 0\<rparr>"
    if "get_user_analytics ?db now U1 res" for res
  proof (cases res)
    case (Inl err)
    with that tabs show ?thesis by (simp add: get_user_analytics_Inl)
  next
    case (Inr r)
    with that have "ua_documents r = documents_of (doc_stats (rows ?dt) U1)"
      by (simp add: get_user_analytics_Inr [OF tabs])
    with Inr ds show ?thesis by simp
  qed
  from ack ex all show ?thesis by blast
qed

theorem insert_then_read_witness:
  "fst (record_document_event fresh_database 7 0
          (doc_event 1 ''generation'' None (Some (5 / 2)) ''success''))
     = Inr ''Event recorded successfully'' \<and>
   (\<exists>r. get_user_analytics
          (snd (record_document_event fresh_database 7 0
             (doc_event 1 ''generation'' None (Some (5 / 2)) ''success''))) now_ex 1 (Inr r) \<and>
        ua_documents r = \<lparr>total' = 1, successful = 1, failed = 0, avg_generation_time = 5 / 2,
          status_changes = 0\<rparr>)"
proof -
  let ?e = "doc_event 1 ''generation'' None (Some (5 / 2)) ''success''"
  have t: "document_events fresh_database = Some \<lparr>columns = document_events_columns, rows = []\<rparr>"
    "blockchain_events fresh_database = Some \<lparr>columns = blockchain_events_columns, rows = []\<rparr>"
    by (simp_all add: fresh_database_def empty_database_def init_database_def
        create_table_if_not_exists_def Let_def)
  have n: "\<forall>x\<in>set (rows \<lparr>columns = document_events_columns, rows = []\<rparr>). dr_user_id x \<noteq> 1"
    by simp
  have e: "de_user_id ?e = 1" "de_status ?e = ''success''" "de_event_type ?e = ''generation''"
    "de_duration_seconds ?e = Some (5 / 2)"
    by (simp_all add: doc_event_def)
  from insert_then_read [OF t n e, of 7 0 now_ex] show ?thesis
    by blast
qed

section \<open>Document-type distribution\<close>

text \<open>
  Claim C3, as the code has it. The \<^verbatim>\<open>document_types\<close> list of an answer has one entry
  for each document type that occurs, not \<^verbatim>\<open>NULL\<close>, among the user's document events; the
  entry's count is the number of those events; and the counts never increase along the
  list. The statement orders by the count alone: entries of equal count come in an order
  the engine chooses, so two answers to the same question hold the same entries and the
  same sequence of counts, and may differ in the order of tied entries.
\<close>

theorem document_types_grouped_by_count:
  assumes "get_user_analytics db now u (Inr r)" and "document_events db = Some dt"
  shows "distinct (map fst (ua_document_types r)) \<and>
    (\<forall>ty c. (ty, c) \<in> set (ua_document_types r) \<longleftrightarrow>
       (\<exists>x\<in>set (rows dt). dr_user_id x = u \<and> dr_document_type x = Some ty) \<and>
       c = length (filter (\<lambda>x. dr_user_id x = u \<and> dr_document_type x = Some ty) (rows dt))) \<and>
    sorted_wrt (\<lambda>a b. snd b \<le> snd a) (ua_document_types r) \<and>
    (\<forall>r'. get_user_analytics db now u (Inr r') \<longrightarrow>
       map snd (ua_document_types r') = map snd (ua_document_types r) \<and>
       mset (ua_document_types r') = mset (ua_document_types r))"
proof -
  from assms(1) obtain dt' bt where t: "document_events db = Some dt'" "blockchain_events db = Some bt"
    by (rule get_user_analytics_tables)
  with assms(2) have t': "document_events db = Some dt" "blockchain_events db = Some bt"
    by simp_all
  from assms(1) have o: "order_by_desc snd (doc_type_groups (rows dt) u) (ua_document_types r)"
    by (simp add: get_user_analytics_Inr [OF t'] doc_types_def)
  have 1: "distinct (map fst (ua_document_types r))"
    using order_by_desc_distinct [OF o, of fst] doc_type_groups_distinct by simp
  have 2: "(ty, c) \<in> set (ua_document_types r) \<longleftrightarrow>
       (\<exists>x\<in>set (rows dt). dr_user_id x = u \<and> dr_document_type x = Some ty) \<and>
       c = length (filter (\<lambda>x. dr_user_id x = u \<and> dr_document_type x = Some ty) (rows dt))" for ty c
    by (simp only: order_by_desc_set [OF o] doc_type_groups_mem)
  have 3: "sorted_wrt (\<lambda>a b. snd b \<le> snd a) (ua_document_types r)"
    using o by (simp add: order_by_desc_def)
  have 4: "map snd (ua_document_types r') = map snd (ua_document_types r) \<and>
       mset (ua_document_types r') = mset (ua_document_types r)"
    if "get_user_analytics db now u (Inr r')" for r'
  proof -
    from that have o': "order_by_desc snd (doc_type_groups (rows dt) u) (ua_document_types r')"
      by (simp add: get_user_analytics_Inr [OF t'] doc_types_def)
    from o o' show ?thesis
      by (simp add: order_by_desc_keys) (simp add: order_by_desc_def)
  qed
  from 1 2 3 4 show ?thesis by blast
qed

theorem document_types_grouped_by_count_witness:
  "get_user_analytics db_ex now_ex 1 (Inr answer_ex) \<and>
   distinct (map fst (ua_document_types answer_ex)) \<and>
   sorted_wrt (\<lambda>a b. snd b \<le> snd a) (ua_document_types answer_ex) \<and>
   (''contract'', 2) \<in> set (ua_document_types answer_ex) \<and>
   length (filter (\<lambda>x. dr_user_id x = 1 \<and> dr_document_type x = Some ''contract'') rows_ex) = 2"
proof -
  have "(''contract'', 2) \<in> set (ua_document_types answer_ex)"
    by (simp add: answer_ex_def)
  with document_types_grouped_by_count [OF example_answer tables_ex(1)] example_answer
  show ?thesis by auto
qed

text \<open>
  Claim C3 as stated fails: with one \<^verbatim>\<open>invoice\<close> and one \<^verbatim>\<open>contract\<close> event the two
  entries tie, and the answer listing \<^verbatim>\<open>contract\<close> first and the answer listing \<^verbatim>\<open>invoice\<close>
  first are both possible. The order is not fixed by the document type, and not fixed at
  all.
\<close>

theorem document_types_tie_order_counterexample:
  "get_user_analytics db_tie now_ex 1 (Inr (answer_tie [(''contract'', 1), (''invoice'', 1)])) \<and>
   get_user_analytics db_tie now_ex 1 (Inr (answer_tie [(''invoice'', 1), (''contract'', 1)]))"
proof -
  have t: "document_events db_tie = Some \<lparr>columns = document_events_columns, rows = rows_tie\<rparr>"
    "blockchain_events db_tie = Some \<lparr>columns = blockchain_events_columns, rows = []\<rparr>"
    by (simp_all add: db_tie_def database_of_def)
  have d: "documents_of (doc_stats rows_tie 1) =
      \<lparr>total' = 2, successful = 2, failed = 0, avg_generation_time = 0, status_changes = 0\<rparr>"
    by code_simp
  have g: "doc_type_groups rows_tie 1 = [(''invoice'', 1), (''contract'', 1)]"
    by code_simp
  have rg: "recent_activity_groups rows_tie now_ex 1 = []"
    by code_simp
  have ra: "recent_activity rows_tie now_ex 1 []"
    by (simp add: recent_activity_def rg order_by_desc_Nil)
  have pt: "performance_trend rows_tie now_ex 1 = []"
    by code_simp
  have ty1: "doc_types rows_tie 1 [(''contract'', 1), (''invoice'', 1)]"
    by (simp add: doc_types_def g order_by_desc_def)
  have ty2: "doc_types rows_tie 1 [(''invoice'', 1), (''contract'', 1)]"
    by (simp add: doc_types_def g order_by_desc_def)
  show ?thesis
    using ty1 ty2 ra
    by (simp add: get_user_analytics_Inr [OF t] answer_tie_def d blockchain_of_empty pt)
qed

section \<open>Rounding of averages\<close>

text \<open>
  The three averages of the per-user answer go through \<^verbatim>\<open>round(..., 2)\<close> when the answer
  is built, and each is a whole number of hundredths.
\<close>

lemma user_averages_rounded:
  assumes "get_user_analytics db now u (Inr r)"
  shows "(\<exists>k :: int. avg_generation_time (ua_documents r) * 100 = of_int k) \<and>
    (\<exists>k :: int. avg_transaction_time (ua_blockchain r) * 100 = of_int k) \<and>
    (\<forall>(d, a, n) \<in> set (ua_performance_trend r). \<exists>k :: int. a * 100 = of_int k)"
proof -
  from assms obtain dt bt where t: "document_events db = Some dt" "blockchain_events db = Some bt"
    by (rule get_user_analytics_tables)
  from assms have r: "ua_documents r = documents_of (doc_stats (rows dt) u)"
    "ua_blockchain r = blockchain_of (blockchain_stats (rows bt) u)"
    "ua_performance_trend r =
      map (\<lambda>(d, a, n). (d, round2 (or_0 a), n)) (performance_trend (rows dt) now u)"
    by (simp_all add: get_user_analytics_Inr [OF t])
  have 1: "\<exists>k :: int. avg_generation_time (ua_documents r) * 100 = of_int k"
    by (simp add: r(1) documents_of_def doc_stats_def Let_def round2_hundredth)
  have 2: "\<exists>k :: int. avg_transaction_time (ua_blockchain r) * 100 = of_int k"
    by (simp add: r(2) blockchain_of_avg round2_hundredth)
  have 3: "\<forall>(d, a, n) \<in> set (ua_performance_trend r). \<exists>k :: int. a * 100 = of_int k"
    by (auto simp: r(3) round2_hundredth)
  from 1 2 3 show ?thesis by blast
qed

text \<open>
  Claim C4 says that the system-wide averages are rounded to two places as well.
  \<^verbatim>\<open>get_system_analytics\<close> returns its two averages as the statement computed them, with
  \<^verbatim>\<open>or 0\<close> and without \<^verbatim>\<open>round\<close>: with one successful generation of 0.125 seconds the
  answer carries \<^verbatim>\<open>avg_document_generation_time\<close> 0.125, where rounding to two places gives
  0.12.
\<close>

theorem system_average_not_rounded:
  "get_system_analytics db_eighth =
     Inr \<lparr>total_users = 1, total_documents = 1, system_total_transactions = 0,
          avg_document_generation_time = 1 / 8, avg_blockchain_transaction_time = 0\<rparr> \<and>
   round2 (1 / 8) = 3 / 25"
proof -
  have "round2 (1 / 8) = 3 / 25" by code_simp
  then show ?thesis
    by (simp add: get_system_analytics_def system_stats_def db_eighth_def database_of_def
        doc_row_def document_row_of_def doc_event_def sql_avg_def or_0_def)
qed

section \<open>Recent activity\<close>

text \<open>
  Claim C5, as the code has it. The statement keeps the user's rows whose \<^verbatim>\<open>created_at\<close>
  is not before midnight of the current date minus 30 days, groups them by event type and
  day, counts each group, and returns the groups by day descending, the first 30 at most.
  In the theorem: the groups are exactly the (event type, day) pairs of the user's rows in
  the window, each once, with the number of its rows; \<^verbatim>\<open>recent_activity\<close> lists groups,
  none twice, 30 of them or all if there are fewer, the days never increasing along the
  list, and a group left out is not of a later day than any group listed. A time 31 days
  before the query is before the window and a time 29 days before it is inside: no entry
  has the day of an event 31 days old, and an event of the user 29 days old has its entry
  in the list whenever the user's rows in the window form at most 30 groups.
\<close>

theorem recent_activity_window:
  assumes "get_user_analytics db now u (Inr r)" and "document_events db = Some dt"
  shows "(\<forall>e c d. (e, c, d) \<in> set (recent_activity_groups (rows dt) now u) \<longleftrightarrow>
        (\<exists>x t. x \<in> set (rows dt) \<and> dr_user_id x = u \<and> dr_created_at x = Some t \<and>
           current_date now - 30 * day_us \<le> t \<and> dr_event_type x = e \<and> date_trunc_day t = d) \<and>
        c = length (filter (\<lambda>x. dr_user_id x = u \<and> dr_event_type x = e \<and>
              (case dr_created_at x of None \<Rightarrow> False
               | Some t \<Rightarrow> current_date now - 30 * day_us \<le> t \<and> date_trunc_day t = d))
              (rows dt))) \<and>
    distinct (map (\<lambda>(e, c, d). (e, d)) (recent_activity_groups (rows dt) now u)) \<and>
    set (ua_recent_activity r) \<subseteq> set (recent_activity_groups (rows dt) now u) \<and>
    distinct (ua_recent_activity r) \<and>
    length (ua_recent_activity r) = min 30 (length (recent_activity_groups (rows dt) now u)) \<and>
    sorted_wrt (\<lambda>a b. (case b of (e, c, d) \<Rightarrow> d) \<le> (case a of (e, c, d) \<Rightarrow> d))
      (ua_recent_activity r) \<and>
    (\<forall>g\<in>set (recent_activity_groups (rows dt) now u) - set (ua_recent_activity r).
       \<forall>h\<in>set (ua_recent_activity r).
         (case g of (e, c, d) \<Rightarrow> d) \<le> (case h of (e, c, d) \<Rightarrow> d)) \<and>
    (length (recent_activity_groups (rows dt) now u) \<le> 30 \<longrightarrow>
       set (ua_recent_activity r) = set (recent_activity_groups (rows dt) now u)) \<and>
    (\<forall>e c d. (e, c, d) \<in> set (ua_recent_activity r) \<longrightarrow>
        current_date now - 30 * day_us \<le> d \<and> 0 < c \<and>
        c = length (filter (\<lambda>x. dr_user_id x = u \<and> dr_event_type x = e \<and>
              (case dr_created_at x of None \<Rightarrow> False
               | Some t \<Rightarrow> current_date now - 30 * day_us \<le> t \<and> date_trunc_day t = d))
              (rows dt))) \<and>
    now - 31 * day_us < current_date now - 30 * day_us \<and>
    current_date now - 30 * day_us \<le> now - 29 * day_us \<and>
    (\<forall>e c. (e, c, date_trunc_day (now - 31 * day_us)) \<notin> set (ua_recent_activity r)) \<and>
    (\<forall>x\<in>set (rows dt).
        dr_user_id x = u \<and> dr_created_at x = Some (now - 29 * day_us) \<and>
        length (recent_activity_groups (rows dt) now u) \<le> 30 \<longrightarrow>
        (\<exists>c>0. (dr_event_type x, c, date_trunc_day (now - 29 * day_us))
                 \<in> set (ua_recent_activity r))) \<and>
    length (ua_recent_activity r) \<le> 30"
proof -
  let ?cut = "current_date now - 30 * day_us"
  let ?out = "ua_recent_activity r"
  let ?gs = "recent_activity_groups (rows dt) now u"
  let ?n = "\<lambda>e d. length (filter (\<lambda>x. dr_user_id x = u \<and> dr_event_type x = e \<and>
              (case dr_created_at x of None \<Rightarrow> False
               | Some t \<Rightarrow> ?cut \<le> t \<and> date_trunc_day t = d)) (rows dt))"
  from assms(1) obtain dt' bt where "document_events db = Some dt'" "blockchain_events db = Some bt"
    by (rule get_user_analytics_tables)
  with assms(2) have t: "document_events db = Some dt" "blockchain_events db = Some bt"
    by simp_all
  from assms(1) have ra: "recent_activity (rows dt) now u ?out"
    by (simp add: get_user_analytics_Inr [OF t])
  have g1: "(e, c, d) \<in> set ?gs \<longleftrightarrow>
        (\<exists>x t. x \<in> set (rows dt) \<and> dr_user_id x = u \<and> dr_created_at x = Some t \<and>
           ?cut \<le> t \<and> dr_event_type x = e \<and> date_trunc_day t = d) \<and> c = ?n e d" for e c d
    by (rule recent_activity_groups_mem)
  note g2 = recent_activity_groups_distinct [of "rows dt" now u]
  note sub = recent_activity_subset(1) [OF ra]
  note top = recent_activity_top [OF ra]
  have all: "length ?gs \<le> 30 \<longrightarrow> set ?out = set ?gs"
    using recent_activity_all [OF ra] by blast
  have a: "?cut \<le> d \<and> 0 < c \<and> c = ?n e d" if "(e, c, d) \<in> set ?out" for e c d
  proof -
    from that sub have "(e, c, d) \<in> set ?gs" by blast
    then obtain x t' where x: "x \<in> set (rows dt)" "dr_user_id x = u" "dr_created_at x = Some t'"
        "?cut \<le> t'" "dr_event_type x = e" "date_trunc_day t' = d" and c: "c = ?n e d"
      unfolding recent_activity_groups_mem by blast
    from x(4,6) have "?cut \<le> d" using cutoff_le_date [of now 30 t'] by simp
    moreover have "0 < ?n e d"
      by (rule length_filter_pos [OF x(1)]) (simp add: x)
    ultimately show ?thesis using c by simp
  qed
  note w = window_31_29 [of now]
  have c: "(e, c, date_trunc_day (now - 31 * day_us)) \<notin> set ?out" for e c
  proof
    assume "(e, c, date_trunc_day (now - 31 * day_us)) \<in> set ?out"
    then have "?cut \<le> date_trunc_day (now - 31 * day_us)" using a by blast
    with date_trunc_day_le [of "now - 31 * day_us"] w show False by simp
  qed
  have d: "\<exists>c>0. (dr_event_type x, c, date_trunc_day (now - 29 * day_us)) \<in> set ?out"
    if x: "x \<in> set (rows dt)" "dr_user_id x = u" "dr_created_at x = Some (now - 29 * day_us)"
      and few: "length ?gs \<le> 30" for x
  proof -
    let ?d = "date_trunc_day (now - 29 * day_us)"
    have "(dr_event_type x, ?n (dr_event_type x) ?d, ?d) \<in> set ?gs"
      unfolding recent_activity_groups_mem using x w by blast
    then have "(dr_event_type x, ?n (dr_event_type x) ?d, ?d) \<in> set ?out"
      by (simp add: recent_activity_all [OF ra few])
    moreover have "0 < ?n (dr_event_type x) ?d"
      by (rule length_filter_pos [OF x(1)]) (use x w in simp)
    ultimately show ?thesis by blast
  qed
  have p1: "\<forall>e c d. (e, c, d) \<in> set ?gs \<longleftrightarrow>
        (\<exists>x t. x \<in> set (rows dt) \<and> dr_user_id x = u \<and> dr_created_at x = Some t \<and>
           ?cut \<le> t \<and> dr_event_type x = e \<and> date_trunc_day t = d) \<and> c = ?n e d"
    using g1 by blast
  have p2: "\<forall>e c d. (e, c, d) \<in> set ?out \<longrightarrow> ?cut \<le> d \<and> 0 < c \<and> c = ?n e d"
    using a by blast
  have p3: "\<forall>e c. (e, c, date_trunc_day (now - 31 * day_us)) \<notin> set ?out"
    using c by blast
  have p4: "\<forall>x\<in>set (rows dt).
        dr_user_id x = u \<and> dr_created_at x = Some (now - 29 * day_us) \<and> length ?gs \<le> 30 \<longrightarrow>
        (\<exists>c>0. (dr_event_type x, c, date_trunc_day (now - 29 * day_us)) \<in> set ?out)"
    using d by blast
  show ?thesis
    apply (intro conjI)
    subgoal by (rule p1)
    subgoal by (rule g2)
    subgoal by (rule sub)
    subgoal by (rule top(1))
    subgoal by (rule top(2))
    subgoal by (rule top(3))
    subgoal by (rule top(4))
    subgoal by (rule all)
    subgoal by (rule p2)
    subgoal using w by simp
    subgoal using w by simp
    subgoal by (rule p3)
    subgoal by (rule p4)
    subgoal by (rule recent_activity_subset(2) [OF ra])
    done
qed

theorem recent_activity_window_witness:
  "get_user_analytics db_ex now_ex 1 (Inr answer_ex) \<and>
   dr_user_id (hd rows_ex) = 1 \<and>
   dr_created_at (hd rows_ex) = Some (now_ex - 29 * day_us) \<and>
   length (recent_activity_groups rows_ex now_ex 1) \<le> 30 \<and>
   (\<exists>c>0. (dr_event_type (hd rows_ex), c, date_trunc_day (now_ex - 29 * day_us))
            \<in> set (ua_recent_activity answer_ex)) \<and>
   (''generation'', 2, date_trunc_day (now_ex - 31 * day_us)) \<notin> set (ua_recent_activity answer_ex) \<and>
   length (ua_recent_activity answer_ex) = min 30 (length (recent_activity_groups rows_ex now_ex 1)) \<and>
   set (ua_recent_activity answer_ex) = set (recent_activity_groups rows_ex now_ex 1)"
proof -
  note th = recent_activity_window [OF example_answer tables_ex(1)]
  note c2 = conjunct2
  note n5 = th [THEN c2, THEN c2, THEN c2, THEN c2, THEN conjunct1]
  note n8 = th [THEN c2, THEN c2, THEN c2, THEN c2, THEN c2, THEN c2, THEN c2, THEN conjunct1]
  note n12 = th [THEN c2, THEN c2, THEN c2, THEN c2, THEN c2, THEN c2, THEN c2, THEN c2,
    THEN c2, THEN c2, THEN c2, THEN conjunct1]
  note n13 = th [THEN c2, THEN c2, THEN c2, THEN c2, THEN c2, THEN c2, THEN c2, THEN c2,
    THEN c2, THEN c2, THEN c2, THEN c2, THEN conjunct1]
  have x: "hd rows_ex \<in> set (rows \<lparr>columns = document_events_columns, rows = rows_ex\<rparr>)"
    by (simp add: rows_ex_def)
  have few: "length (recent_activity_groups rows_ex now_ex 1) \<le> 30"
    by (simp add: groups_ex)
  have h: "dr_user_id (hd rows_ex) = 1 \<and>
      dr_created_at (hd rows_ex) = Some (now_ex - 29 * day_us)"
    by (simp add: rows_ex_def doc_row_def document_row_of_def doc_event_def)
  from n13 [THEN bspec, OF x] h few
  have a: "\<exists>c>0. (dr_event_type (hd rows_ex), c, date_trunc_day (now_ex - 29 * day_us))
            \<in> set (ua_recent_activity answer_ex)"
    by simp
  from n12 have b: "(''generation'', 2, date_trunc_day (now_ex - 31 * day_us))
      \<notin> set (ua_recent_activity answer_ex)"
    by blast
  from n5 have c: "length (ua_recent_activity answer_ex)
      = min 30 (length (recent_activity_groups rows_ex now_ex 1))"
    by simp
  from n8 few have d: "set (ua_recent_activity answer_ex)
      = set (recent_activity_groups rows_ex now_ex 1)"
    by simp
  from example_answer h few a b c d show ?thesis
    by (intro conjI) simp_all
qed

text \<open>
  The state \<open>db_many\<close>: thirty groups on the day of the query and one group 29 days old.
\<close>

lemma groups_many:
  "recent_activity_groups rows_many now_ex 1 =
    (''signature'', 1, 71 * day_us) #
    map (\<lambda>c. ([c], 1, 100 * day_us)) ''abcdefghijklmnopqrstuvwxyzABCD''"
  by code_simp

lemma date_29_days_before: "date_trunc_day (now_ex - 29 * day_us) = 71 * day_us"
  by code_simp

lemma tables_many:
  "document_events db_many = Some \<lparr>columns = document_events_columns, rows = rows_many\<rparr>"
  "blockchain_events db_many = Some \<lparr>columns = blockchain_events_columns, rows = []\<rparr>"
  by (simp_all add: db_many_def database_of_def)

lemma answer_many_possible: "get_user_analytics db_many now_ex 1 (Inr answer_many)"
proof -
  let ?today = "map (\<lambda>c. ([c], 1::nat, 100 * day_us)) ''abcdefghijklmnopqrstuvwxyzABCD''"
  let ?old = "(''signature'', 1::nat, 71 * day_us)"
  have d: "documents_of (doc_stats rows_many 1) = ua_documents answer_many"
    by code_simp
  have g: "doc_type_groups rows_many 1 = []"
    by code_simp
  have ty: "doc_types rows_many 1 []"
    by (simp add: doc_types_def g order_by_desc_Nil)
  have pt: "map (\<lambda>(d, a, n). (d, round2 (or_0 a), n)) (performance_trend rows_many now_ex 1) =
      ua_performance_trend answer_many"
    by code_simp
  have "order_by_desc (\<lambda>(e, c, d). d) (?old # ?today) (?today @ [?old])"
    unfolding order_by_desc_def
  proof
    show "mset (?today @ [?old]) = mset (?old # ?today)"
      by (simp only: mset_append mset.simps) simp
    show "sorted_wrt (\<lambda>a b. (case b of (e, c, d) \<Rightarrow> d) \<le> (case a of (e, c, d) \<Rightarrow> d))
        (?today @ [?old])"
      by (simp add: sorted_wrt_append day_us_def)
  qed
  moreover have "ua_recent_activity answer_many = take 30 (?today @ [?old])"
    by (simp add: answer_many_def)
  ultimately have ra: "recent_activity rows_many now_ex 1 (ua_recent_activity answer_many)"
    unfolding recent_activity_def groups_many by blast
  show ?thesis
    unfolding get_user_analytics_Inr [OF tables_many]
    using ra ty by (simp add: d blockchain_of_empty pt) (simp add: answer_many_def)
qed

lemma old_group_cut_off:
  assumes "recent_activity rows_many now_ex 1 out"
  shows "(''signature'', c, 71 * day_us) \<notin> set out"
proof -
  let ?key = "\<lambda>(e :: string, c :: nat, d :: timestamp). d"
  let ?x = "(''signature'', c, 71 * day_us)"
  from assms obtain ordered where
    o: "order_by_desc ?key (recent_activity_groups rows_many now_ex 1) ordered"
    and out: "out = take 30 ordered"
    by (auto simp: recent_activity_def)
  from o have m: "mset ordered = mset (recent_activity_groups rows_many now_ex 1)"
    and s: "sorted_wrt (\<lambda>a b. ?key b \<le> ?key a) ordered"
    by (simp_all add: order_by_desc_def)
  have "length (filter (\<lambda>y. ?key ?x < ?key y) ordered) =
      length (filter (\<lambda>y. ?key ?x < ?key y) (recent_activity_groups rows_many now_ex 1))"
    using m by (rule length_filter_mset_cong)
  also have "\<dots> = 30"
    unfolding groups_many by (simp add: day_us_def)
  finally have "30 \<le> length (filter (\<lambda>y. ?key ?x < ?key y) ordered)"
    by simp
  with s have "?x \<notin> set (take 30 ordered)"
    by (rule take_sorted_desc_excludes)
  then show ?thesis by (simp add: out)
qed

lemma answer_edge_possible: "get_user_analytics db_edge now_ex 1 (Inr answer_edge)"
proof -
  let ?rs = "[doc_row 1 ''upload'' None None ''success'' (now_ex - 30 * day_us - 1800000000)]"
  have t: "document_events db_edge = Some \<lparr>columns = document_events_columns, rows = ?rs\<rparr>"
    "blockchain_events db_edge = Some \<lparr>columns = blockchain_events_columns, rows = []\<rparr>"
    by (simp_all add: db_edge_def database_of_def)
  have d: "documents_of (doc_stats ?rs 1) = ua_documents answer_edge"
    by code_simp
  have g: "doc_type_groups ?rs 1 = []"
    by code_simp
  have ty: "doc_types ?rs 1 []"
    by (simp add: doc_types_def g order_by_desc_Nil)
  have rg: "recent_activity_groups ?rs now_ex 1 = [(''upload'', 1, 70 * day_us)]"
    by code_simp
  have ra: "recent_activity ?rs now_ex 1 [(''upload'', 1, 70 * day_us)]"
    unfolding recent_activity_def rg
    by (rule exI [of _ "[(''upload'', 1, 70 * day_us)]"]) (simp add: order_by_desc_def)
  have pt: "performance_trend ?rs now_ex 1 = []"
    by code_simp
  show ?thesis
    unfolding get_user_analytics_Inr [OF t]
    using ra ty by (simp add: d blockchain_of_empty pt) (simp add: answer_edge_def)
qed

text \<open>
  Claim C5 as stated fails. In \<open>db_many\<close> the user has an event exactly 29 days before
  the query, and thirty groups of later days: the call has an answer, and no answer it
  can have lists the group of the 29 days old event, which \<^verbatim>\<open>LIMIT 30\<close> cuts off. And the
  window does not end 30 days before the query: in \<open>db_edge\<close> an event 30 days and 30
  minutes old is listed.
\<close>

theorem recent_activity_cap_counterexample:
  "dr_user_id (hd rows_many) = 1 \<and>
   dr_created_at (hd rows_many) = Some (now_ex - 29 * day_us) \<and>
   dr_event_type (hd rows_many) = ''signature'' \<and>
   get_user_analytics db_many now_ex 1 (Inr answer_many) \<and>
   \<not> (\<exists>r c. get_user_analytics db_many now_ex 1 (Inr r) \<and>
         (''signature'', c, date_trunc_day (now_ex - 29 * day_us)) \<in> set (ua_recent_activity r)) \<and>
   get_user_analytics db_edge now_ex 1 (Inr answer_edge) \<and>
   ua_recent_activity answer_edge =
     [(''upload'', 1, date_trunc_day (now_ex - 30 * day_us - 1800000000))] \<and>
   now_ex - 30 * day_us - 1800000000 < now_ex - 30 * day_us"
proof -
  have h: "dr_user_id (hd rows_many) = 1 \<and>
      dr_created_at (hd rows_many) = Some (now_ex - 29 * day_us) \<and>
      dr_event_type (hd rows_many) = ''signature''"
    by (simp add: rows_many_def doc_row_def document_row_of_def doc_event_def)
  have n: "\<not> (\<exists>r c. get_user_analytics db_many now_ex 1 (Inr r) \<and>
         (''signature'', c, date_trunc_day (now_ex - 29 * day_us)) \<in> set (ua_recent_activity r))"
    unfolding get_user_analytics_Inr [OF tables_many] date_29_days_before
    using old_group_cut_off by auto
  have e: "date_trunc_day (now_ex - 30 * day_us - 1800000000) = 70 * day_us"
    by code_simp
  have e': "ua_recent_activity answer_edge =
     [(''upload'', 1, date_trunc_day (now_ex - 30 * day_us - 1800000000))]"
    by (simp add: e answer_edge_def)
  from h answer_many_possible n answer_edge_possible e' show ?thesis
    by simp
qed

section \<open>Averages skip missing durations\<close>



section \<open>A user without events\<close>

lemma get_user_analytics_no_events:
  assumes "document_events db = Some dt" and "blockchain_events db = Some bt"
    and "\<forall>x\<in>set (rows dt). dr_user_id x \<noteq> u" and "\<forall>x\<in>set (rows bt). br_user_id x \<noteq> u"
  shows "get_user_analytics db now u res \<longleftrightarrow>
    res = Inr \<lparr>ua_user_id = u,
      ua_documents = \<lparr>total' = 0, successful = 0, failed = 0, avg_generation_time = 0,
        status_changes = 0\<rparr>,
      ua_document_types = [],
      ua_recent_activity = [],
      ua_blockchain = \<lparr>total_transactions = 0, successful_transactions = 0,
        avg_transaction_time = 0, total_gas_used = 0\<rparr>,
      ua_performance_trend = []\<rparr>"
proof -
  have d: "filter (\<lambda>r. dr_user_id r = u) (rows dt) = []"
    using assms(3) by (rule filter_user_Nil)
  have b: "filter (\<lambda>r. br_user_id r = u) (rows bt) = []"
    using assms(4) by (rule filter_user_Nil)
  have s: "since c u (rows dt) = []" for c
    using assms(3) by (rule since_Nil)
  have ds: "documents_of (doc_stats (rows dt) u) =
      \<lparr>total' = 0, successful = 0, failed = 0, avg_generation_time = 0, status_changes = 0\<rparr>"
    by (simp add: documents_of_def doc_stats_def d count_when_def sql_avg_def or_0_def round2_0)
  have bs: "blockchain_of (blockchain_stats (rows bt) u) =
      \<lparr>total_transactions = 0, successful_transactions = 0, avg_transaction_time = 0,
       total_gas_used = 0\<rparr>"
    by (simp add: blockchain_of_def blockchain_stats_def b count_when_def sql_avg_def sql_sum_def
        or_0_def round2_0)
  have ty: "doc_types (rows dt) u out \<longleftrightarrow> out = []" for out
    by (simp add: doc_types_def doc_type_groups_def d group_count_def order_by_desc_Nil)
  have ra: "recent_activity (rows dt) now u out \<longleftrightarrow> out = []" for out
    by (simp add: recent_activity_def recent_activity_groups_def s group_count_def
        order_by_desc_Nil)
  have pt: "performance_trend (rows dt) now u = []"
    by (simp add: performance_trend_def s)
  show ?thesis
  proof (cases res)
    case (Inl e)
    then show ?thesis
      using assms(1,2) by (simp add: get_user_analytics_Inl)
  next
    case (Inr r)
    then show ?thesis
      by (cases r) (auto simp: get_user_analytics_Inr [OF assms(1,2)] ds bs ty ra pt)
  qed
qed

text \<open>
  Claim C7, as the code has it. In a state with both event tables, for a \<^verbatim>\<open>user_id\<close> that
  is the text of a UUID and has no document event and no transaction, the request has
  exactly one outcome: the answer that returns the text, holds 0 in every field of its
  \<^verbatim>\<open>documents\<close> and \<^verbatim>\<open>blockchain\<close> objects and has three empty lists. It is not an error,
  and no field is missing. For text that is no UUID the request has exactly one outcome
  too once \<^verbatim>\<open>document_events\<close> holds a row: the error with status 500.
\<close>

theorem user_without_events_all_zero:
  assumes "document_events db = Some dt" and "blockchain_events db = Some bt"
  shows "(to_uuid user_id = Some u \<and> (\<forall>x\<in>set (rows dt). dr_user_id x \<noteq> u) \<and>
      (\<forall>x\<in>set (rows bt). br_user_id x \<noteq> u) \<longrightarrow>
      (get_analytics_user to_uuid db now user_id res \<longleftrightarrow>
        res = Inr \<lparr>rs_user_id = user_id,
          rs_documents = \<lparr>total' = 0, successful = 0, failed = 0, avg_generation_time = 0,
            status_changes = 0\<rparr>,
          rs_document_types = [],
          rs_recent_activity = [],
          rs_blockchain = \<lparr>total_transactions = 0, successful_transactions = 0,
            avg_transaction_time = 0, total_gas_used = 0\<rparr>,
          rs_performance_trend = []\<rparr>)) \<and>
    (to_uuid user_id = None \<and> rows dt \<noteq> [] \<longrightarrow>
      (get_analytics_user to_uuid db now user_id res \<longleftrightarrow> res = Inl (HTTPException 500)))"
proof (intro conjI impI)
  assume h: "to_uuid user_id = Some u \<and> (\<forall>x\<in>set (rows dt). dr_user_id x \<noteq> u) \<and>
      (\<forall>x\<in>set (rows bt). br_user_id x \<noteq> u)"
  then have u: "to_uuid user_id = Some u"
    and d: "\<forall>x\<in>set (rows dt). dr_user_id x \<noteq> u"
    and b: "\<forall>x\<in>set (rows bt). br_user_id x \<noteq> u"
    by simp_all
  note z = get_user_analytics_no_events [OF assms d b]
  show "get_analytics_user to_uuid db now user_id res \<longleftrightarrow>
        res = Inr \<lparr>rs_user_id = user_id,
          rs_documents = \<lparr>total' = 0, successful = 0, failed = 0, avg_generation_time = 0,
            status_changes = 0\<rparr>,
          rs_document_types = [],
          rs_recent_activity = [],
          rs_blockchain = \<lparr>total_transactions = 0, successful_transactions = 0,
            avg_transaction_time = 0, total_gas_used = 0\<rparr>,
          rs_performance_trend = []\<rparr>"
  proof (cases res)
    case (Inl e)
    then show ?thesis
      using assms u by (simp add: get_analytics_user_def get_user_analytics_Inl)
  next
    case (Inr a)
    then show ?thesis
      by (cases a) (auto simp: get_analytics_user_def u z analytics_of_def)
  qed
next
  assume "to_uuid user_id = None \<and> rows dt \<noteq> []"
  then show "get_analytics_user to_uuid db now user_id res \<longleftrightarrow> res = Inl (HTTPException 500)"
    using assms by (simp add: get_analytics_user_def)
qed

lemma user_9_text: "to_uuid_ex ''00000000-0000-0000-0000-000000000009'' = Some 9"
  by code_simp

lemma nobody_text: "to_uuid_ex ''nobody'' = None"
  by code_simp

theorem user_without_events_all_zero_witness:
  "get_analytics_user to_uuid_ex db_ex now_ex ''00000000-0000-0000-0000-000000000009''
     (Inr \<lparr>rs_user_id = ''00000000-0000-0000-0000-000000000009'',
       rs_documents = \<lparr>total' = 0, successful = 0, failed = 0, avg_generation_time = 0,
         status_changes = 0\<rparr>,
       rs_document_types = [],
       rs_recent_activity = [],
       rs_blockchain = \<lparr>total_transactions = 0, successful_transactions = 0,
         avg_transaction_time = 0, total_gas_used = 0\<rparr>,
       rs_performance_trend = []\<rparr>) \<and>
   \<not> get_analytics_user to_uuid_ex db_ex now_ex ''00000000-0000-0000-0000-000000000009''
       (Inl (HTTPException 500)) \<and>
   to_uuid_ex ''nobody'' = None \<and> rows_ex \<noteq> [] \<and>
   get_analytics_user to_uuid_ex db_ex now_ex ''nobody'' (Inl (HTTPException 500))"
proof -
  have d: "\<forall>x\<in>set (rows \<lparr>columns = document_events_columns, rows = rows_ex\<rparr>). dr_user_id x \<noteq> 9"
    by (simp add: rows_ex_def doc_row_def document_row_of_def doc_event_def)
  have b: "\<forall>x\<in>set (rows \<lparr>columns = blockchain_events_columns, rows = chain_ex\<rparr>). br_user_id x \<noteq> 9"
    by (simp add: chain_ex_def bc_row_def blockchain_row_of_def)
  have r: "rows_ex \<noteq> []"
    by (simp add: rows_ex_def)
  note t1 = user_without_events_all_zero
    [where to_uuid = to_uuid_ex and user_id = "''00000000-0000-0000-0000-000000000009''"
      and u = 9 and now = now_ex, OF tables_ex, THEN conjunct1, THEN mp]
  note t2 = user_without_events_all_zero
    [where to_uuid = to_uuid_ex and user_id = "''nobody''" and now = now_ex,
      OF tables_ex, THEN conjunct2, THEN mp]
  have z: "get_analytics_user to_uuid_ex db_ex now_ex ''00000000-0000-0000-0000-000000000009'' res
      \<longleftrightarrow> res = Inr \<lparr>rs_user_id = ''00000000-0000-0000-0000-000000000009'',
       rs_documents = \<lparr>total' = 0, successful = 0, failed = 0, avg_generation_time = 0,
         status_changes = 0\<rparr>,
       rs_document_types = [],
       rs_recent_activity = [],
       rs_blockchain = \<lparr>total_transactions = 0, successful_transactions = 0,
         avg_transaction_time = 0, total_gas_used = 0\<rparr>,
       rs_performance_trend = []\<rparr>" for res
    by (rule t1) (use user_9_text d b in blast)
  have e: "get_analytics_user to_uuid_ex db_ex now_ex ''nobody'' res
      \<longleftrightarrow> res = Inl (HTTPException 500)" for res
    by (rule t2) (use nobody_text r in simp)
  show ?thesis
    by (simp add: z e nobody_text r)
qed

text \<open>
  Claim C7 as stated fails. The text \<^verbatim>\<open>nobody\<close> is no UUID, and no event of any table is
  an event of it; in \<open>db_ex\<close>, where \<^verbatim>\<open>document_events\<close> holds rows, the request for it has
  one outcome, the error with status 500, and no answer.
\<close>

theorem user_id_not_uuid_counterexample:
  "to_uuid_ex ''nobody'' = None \<and>
   filter (\<lambda>x. to_uuid_ex ''nobody'' = Some (dr_user_id x)) rows_ex = [] \<and>
   filter (\<lambda>x. to_uuid_ex ''nobody'' = Some (br_user_id x)) chain_ex = [] \<and>
   get_analytics_user to_uuid_ex db_ex now_ex ''nobody'' (Inl (HTTPException 500)) \<and>
   \<not> (\<exists>a. get_analytics_user to_uuid_ex db_ex now_ex ''nobody'' (Inr a))"
proof -
  have n: "to_uuid_ex ''nobody'' = None"
    by code_simp
  have r: "rows_ex \<noteq> []"
    by (simp add: rows_ex_def)
  from n r show ?thesis
    by (simp add: get_analytics_user_def tables_ex)
qed

section \<open>Required fields\<close>

lemma parse_DocumentEvent_Inr:
  "parse_DocumentEvent b = Inr m \<longleftrightarrow>
     required (deb_user_id b) = Some (dm_user_id m) \<and>
     optional (deb_document_id b) = Some (dm_document_id m) \<and>
     required (deb_event_type b) = Some (dm_event_type m) \<and>
     optional (deb_document_type b) = Some (dm_document_type m) \<and>
     optional (deb_ai_service b) = Some (dm_ai_service m) \<and>
     optional (deb_duration_seconds b) = Some (dm_duration_seconds m) \<and>
     required (deb_status b) = Some (dm_status m) \<and>
     optional (deb_metadata b) = Some (dm_metadata m)"
  by (cases m) (auto simp: parse_DocumentEvent_def split: option.splits)

lemma parse_DocumentEvent_Inl:
  "parse_DocumentEvent b = Inl e \<longleftrightarrow>
     e = RequestValidationError \<and>
     (required (deb_user_id b) = None \<or> required (deb_event_type b) = None \<or>
      required (deb_status b) = None \<or> optional (deb_document_id b) = None \<or>
      optional (deb_document_type b) = None \<or> optional (deb_ai_service b) = None \<or>
      optional (deb_duration_seconds b) = None \<or> optional (deb_metadata b) = None)"
  by (auto simp: parse_DocumentEvent_def split: option.splits)

lemma parse_BlockchainEvent_Inr:
  "parse_BlockchainEvent b = Inr m \<longleftrightarrow>
     required (beb_user_id b) = Some (bm_user_id m) \<and>
     optional (beb_document_id b) = Some (bm_document_id m) \<and>
     optional (beb_transaction_id b) = Some (bm_transaction_id m) \<and>
     required (beb_network b) = Some (bm_network m) \<and>
     required (beb_transaction_type b) = Some (bm_transaction_type m) \<and>
     optional (beb_duration_seconds b) = Some (bm_duration_seconds m) \<and>
     required (beb_status b) = Some (bm_status m) \<and>
     optional (beb_gas_used b) = Some (bm_gas_used m) \<and>
     optional (beb_metadata b) = Some (bm_metadata m)"
  by (cases m) (auto simp: parse_BlockchainEvent_def split: option.splits)

lemma parse_BlockchainEvent_Inl:
  "parse_BlockchainEvent b = Inl e \<longleftrightarrow>
     e = RequestValidationError \<and>
     (required (beb_user_id b) = None \<or> required (beb_network b) = None \<or>
      required (beb_transaction_type b) = None \<or> required (beb_status b) = None \<or>
      optional (beb_document_id b) = None \<or> optional (beb_transaction_id b) = None \<or>
      optional (beb_duration_seconds b) = None \<or> optional (beb_gas_used b) = None \<or>
      optional (beb_metadata b) = None)"
  by (auto simp: parse_BlockchainEvent_def split: option.splits)

lemma required_Given: "required f = Some v \<longleftrightarrow> f = Given v"
  by (cases f) (simp_all add: required_def)

lemma required_None: "f = Missing \<Longrightarrow> required f = None"
  by (simp add: required_def)

lemma handle_document_event_outcome:
  "handle_document_event to_uuid db i t m = (Inl (HTTPException 500), db) \<or>
   fst (handle_document_event to_uuid db i t m) = Inr ''Event recorded successfully''"
  by (auto simp: handle_document_event_def record_document_event_def split: option.splits)

lemma handle_blockchain_event_outcome:
  "handle_blockchain_event to_uuid db i t m = (Inl (HTTPException 500), db) \<or>
   fst (handle_blockchain_event to_uuid db i t m) = Inr ''Event recorded successfully''"
  by (auto simp: handle_blockchain_event_def record_blockchain_event_def split: option.splits)

text \<open>The document route: who is rejected, what a failure leaves, what is stored.\<close>

lemma post_events_document_rejects:
  "fst (post_events_document to_uuid db i t b) = Inl RequestValidationError \<longleftrightarrow>
     required (deb_user_id b) = None \<or> required (deb_event_type b) = None \<or>
     required (deb_status b) = None \<or> optional (deb_document_id b) = None \<or>
     optional (deb_document_type b) = None \<or> optional (deb_ai_service b) = None \<or>
     optional (deb_duration_seconds b) = None \<or> optional (deb_metadata b) = None"
proof (cases "parse_DocumentEvent b")
  case (Inl e)
  then show ?thesis
    using parse_DocumentEvent_Inl [of b e] by (simp add: post_events_document_def)
next
  case (Inr m)
  with handle_document_event_outcome [of to_uuid db i t m]
  have "fst (post_events_document to_uuid db i t b) \<noteq> Inl RequestValidationError"
    by (auto simp: post_events_document_def)
  moreover from Inr have "\<not> (required (deb_user_id b) = None \<or> required (deb_event_type b) = None \<or>
     required (deb_status b) = None \<or> optional (deb_document_id b) = None \<or>
     optional (deb_document_type b) = None \<or> optional (deb_ai_service b) = None \<or>
     optional (deb_duration_seconds b) = None \<or> optional (deb_metadata b) = None)"
    by (simp add: parse_DocumentEvent_Inr)
  ultimately show ?thesis by blast
qed

lemma post_events_document_failure:
  "fst (post_events_document to_uuid db i t b) = Inl e \<Longrightarrow>
     snd (post_events_document to_uuid db i t b) = db"
proof (cases "parse_DocumentEvent b")
  case (Inl e')
  then show ?thesis by (simp add: post_events_document_def)
next
  case (Inr m)
  assume "fst (post_events_document to_uuid db i t b) = Inl e"
  with Inr handle_document_event_outcome [of to_uuid db i t m] show ?thesis
    by (auto simp: post_events_document_def)
qed

lemma post_events_document_stores:
  assumes "deb_user_id b = Given uid" and "deb_event_type b = Given e" and "deb_status b = Given s"
    and "optional (deb_document_id b) = Some did" and "optional (deb_document_type b) = Some ty"
    and "optional (deb_ai_service b) = Some ai" and "optional (deb_duration_seconds b) = Some du"
    and "optional (deb_metadata b) = Some md"
    and "to_uuid uid = Some u" and "convert_optional to_uuid did = Some d"
    and "fits_float du" and "document_events db = Some dt"
  shows "post_events_document to_uuid db i t b =
    (Inr ''Event recorded successfully'',
     db\<lparr>document_events := Some (dt\<lparr>rows := rows dt @
       [\<lparr>dr_id = Some i, dr_user_id = u, dr_document_id = d, dr_event_type = e,
         dr_document_type = ty, dr_ai_service = ai, dr_duration_seconds = du, dr_status = s,
         dr_metadata = md, dr_created_at = Some t\<rparr>]\<rparr>)\<rparr>)"
proof -
  let ?m = "\<lparr>dm_user_id = uid, dm_document_id = did, dm_event_type = e,
      dm_document_type = ty, dm_ai_service = ai, dm_duration_seconds = du,
      dm_status = s, dm_metadata = md\<rparr>"
  have "parse_DocumentEvent b = Inr ?m"
    using assms(1-8) by (simp add: parse_DocumentEvent_Inr required_Given)
  then show ?thesis
    using assms(9-12)
    by (simp add: post_events_document_def handle_document_event_def bind_DocumentEvent_def
        record_document_event_def document_row_of_def)
qed

lemma post_events_document_not_uuid:
  assumes "deb_user_id b = Given uid" and "to_uuid uid = None"
    and "fst (post_events_document to_uuid db i t b) \<noteq> Inl RequestValidationError"
  shows "post_events_document to_uuid db i t b = (Inl (HTTPException 500), db)"
proof (cases "parse_DocumentEvent b")
  case (Inl e)
  with assms(3) parse_DocumentEvent_Inl [of b e] show ?thesis
    by (simp add: post_events_document_def)
next
  case (Inr m)
  then have "dm_user_id m = uid"
    using assms(1) by (simp add: parse_DocumentEvent_Inr required_def)
  with Inr assms(2) show ?thesis
    by (simp add: post_events_document_def handle_document_event_def bind_DocumentEvent_def)
qed

text \<open>The blockchain route, likewise.\<close>

lemma post_events_blockchain_rejects:
  "fst (post_events_blockchain to_uuid db i t b) = Inl RequestValidationError \<longleftrightarrow>
     required (beb_user_id b) = None \<or> required (beb_network b) = None \<or>
     required (beb_transaction_type b) = None \<or> required (beb_status b) = None \<or>
     optional (beb_document_id b) = None \<or> optional (beb_transaction_id b) = None \<or>
     optional (beb_duration_seconds b) = None \<or> optional (beb_gas_used b) = None \<or>
     optional (beb_metadata b) = None"
proof (cases "parse_BlockchainEvent b")
  case (Inl e)
  then show ?thesis
    using parse_BlockchainEvent_Inl [of b e] by (simp add: post_events_blockchain_def)
next
  case (Inr m)
  with handle_blockchain_event_outcome [of to_uuid db i t m]
  have "fst (post_events_blockchain to_uuid db i t b) \<noteq> Inl RequestValidationError"
    by (auto simp: post_events_blockchain_def)
  moreover from Inr have "\<not> (required (beb_user_id b) = None \<or> required (beb_network b) = None \<or>
     required (beb_transaction_type b) = None \<or> required (beb_status b) = None \<or>
     optional (beb_document_id b) = None \<or> optional (beb_transaction_id b) = None \<or>
     optional (beb_duration_seconds b) = None \<or> optional (beb_gas_used b) = None \<or>
     optional (beb_metadata b) = None)"
    by (simp add: parse_BlockchainEvent_Inr)
  ultimately show ?thesis by blast
qed

lemma post_events_blockchain_failure:
  "fst (post_events_blockchain to_uuid db i t b) = Inl e \<Longrightarrow>
     snd (post_events_blockchain to_uuid db i t b) = db"
proof (cases "parse_BlockchainEvent b")
  case (Inl e')
  then show ?thesis by (simp add: post_events_blockchain_def)
next
  case (Inr m)
  assume "fst (post_events_blockchain to_uuid db i t b) = Inl e"
  with Inr handle_blockchain_event_outcome [of to_uuid db i t m] show ?thesis
    by (auto simp: post_events_blockchain_def)
qed

lemma post_events_blockchain_stores:
  assumes "beb_user_id b = Given uid" and "beb_network b = Given n"
    and "beb_transaction_type b = Given tt" and "beb_status b = Given s"
    and "optional (beb_document_id b) = Some did" and "optional (beb_transaction_id b) = Some tx"
    and "optional (beb_duration_seconds b) = Some du" and "optional (beb_gas_used b) = Some g"
    and "optional (beb_metadata b) = Some md"
    and "to_uuid uid = Some u" and "convert_optional to_uuid did = Some d"
    and "fits_float du" and "fits_bigint g" and "blockchain_events db = Some bt"
  shows "post_events_blockchain to_uuid db i t b =
    (Inr ''Event recorded successfully'',
     db\<lparr>blockchain_events := Some (bt\<lparr>rows := rows bt @
       [\<lparr>br_id = Some i, br_user_id = u, br_document_id = d, br_transaction_id = tx,
         br_network = n, br_transaction_type = tt, br_duration_seconds = du, br_status = s,
         br_gas_used = g, br_metadata = md, br_created_at = Some t\<rparr>]\<rparr>)\<rparr>)"
proof -
  let ?m = "\<lparr>bm_user_id = uid, bm_document_id = did, bm_transaction_id = tx,
      bm_network = n, bm_transaction_type = tt, bm_duration_seconds = du,
      bm_status = s, bm_gas_used = g, bm_metadata = md\<rparr>"
  have "parse_BlockchainEvent b = Inr ?m"
    using assms(1-9) by (simp add: parse_BlockchainEvent_Inr required_Given)
  then show ?thesis
    using assms(10-14)
    by (simp add: post_events_blockchain_def handle_blockchain_event_def
        bind_BlockchainEvent_def record_blockchain_event_def blockchain_row_of_def)
qed

lemma post_events_blockchain_not_uuid:
  assumes "beb_user_id b = Given uid" and "to_uuid uid = None"
    and "fst (post_events_blockchain to_uuid db i t b) \<noteq> Inl RequestValidationError"
  shows "post_events_blockchain to_uuid db i t b = (Inl (HTTPException 500), db)"
proof (cases "parse_BlockchainEvent b")
  case (Inl e)
  with assms(3) parse_BlockchainEvent_Inl [of b e] show ?thesis
    by (simp add: post_events_blockchain_def)
next
  case (Inr m)
  then have "bm_user_id m = uid"
    using assms(1) by (simp add: parse_BlockchainEvent_Inr required_def)
  with Inr assms(2) show ?thesis
    by (simp add: post_events_blockchain_def handle_blockchain_event_def
        bind_BlockchainEvent_def)
qed

text \<open>
  Claim C8, as the code has it. Each insert route rejects a body with a validation error,
  before the handler runs, exactly when a required field (\<^verbatim>\<open>user_id\<close>, \<^verbatim>\<open>event_type\<close>,
  \<^verbatim>\<open>status\<close> of a document event; \<^verbatim>\<open>user_id\<close>, \<^verbatim>\<open>network\<close>, \<^verbatim>\<open>transaction_type\<close>, \<^verbatim>\<open>status\<close>
  of a blockchain event) is missing or a field holds a value that is not of its declared
  type; a body that lacks a required field is rejected so, and every failure leaves the
  state as it was. A required field that is present is not looked into: whatever strings
  \<^verbatim>\<open>event_type\<close>, \<^verbatim>\<open>status\<close>, \<^verbatim>\<open>network\<close> and \<^verbatim>\<open>transaction_type\<close> hold, the empty string
  included, the row is stored with them when the identifiers convert, the numbers are in
  the range of their columns and the table exists. A \<^verbatim>\<open>user_id\<close> that is no UUID passes
  the validation and fails in the store, with status 500.
\<close>

theorem required_fields_validated:
  "(fst (post_events_document to_uuid db i t b) = Inl RequestValidationError \<longleftrightarrow>
      required (deb_user_id b) = None \<or> required (deb_event_type b) = None \<or>
      required (deb_status b) = None \<or> optional (deb_document_id b) = None \<or>
      optional (deb_document_type b) = None \<or> optional (deb_ai_service b) = None \<or>
      optional (deb_duration_seconds b) = None \<or> optional (deb_metadata b) = None) \<and>
   (deb_user_id b = Missing \<or> deb_event_type b = Missing \<or> deb_status b = Missing \<longrightarrow>
      post_events_document to_uuid db i t b = (Inl RequestValidationError, db)) \<and>
   (\<forall>err. fst (post_events_document to_uuid db i t b) = Inl err \<longrightarrow>
      snd (post_events_document to_uuid db i t b) = db) \<and>
   (deb_user_id b = Given uid \<and> deb_event_type b = Given e \<and> deb_status b = Given s \<and>
    optional (deb_document_id b) = Some did \<and> optional (deb_document_type b) = Some ty \<and>
    optional (deb_ai_service b) = Some ai \<and> optional (deb_duration_seconds b) = Some du \<and>
    optional (deb_metadata b) = Some md \<and>
    to_uuid uid = Some u \<and> convert_optional to_uuid did = Some d \<and>
    fits_float du \<and> document_events db = Some dt \<longrightarrow>
      post_events_document to_uuid db i t b =
        (Inr ''Event recorded successfully'',
         db\<lparr>document_events := Some (dt\<lparr>rows := rows dt @
           [\<lparr>dr_id = Some i, dr_user_id = u, dr_document_id = d, dr_event_type = e,
             dr_document_type = ty, dr_ai_service = ai, dr_duration_seconds = du,
             dr_status = s, dr_metadata = md, dr_created_at = Some t\<rparr>]\<rparr>)\<rparr>)) \<and>
   (deb_user_id b = Given uid \<and> to_uuid uid = None \<and>
    fst (post_events_document to_uuid db i t b) \<noteq> Inl RequestValidationError \<longrightarrow>
      post_events_document to_uuid db i t b = (Inl (HTTPException 500), db)) \<and>
   (fst (post_events_blockchain to_uuid db i t c) = Inl RequestValidationError \<longleftrightarrow>
      required (beb_user_id c) = None \<or> required (beb_network c) = None \<or>
      required (beb_transaction_type c) = None \<or> required (beb_status c) = None \<or>
      optional (beb_document_id c) = None \<or> optional (beb_transaction_id c) = None \<or>
      optional (beb_duration_seconds c) = None \<or> optional (beb_gas_used c) = None \<or>
      optional (beb_metadata c) = None) \<and>
   (beb_user_id c = Missing \<or> beb_network c = Missing \<or> beb_transaction_type c = Missing \<or>
    beb_status c = Missing \<longrightarrow>
      post_events_blockchain to_uuid db i t c = (Inl RequestValidationError, db)) \<and>
   (\<forall>err. fst (post_events_blockchain to_uuid db i t c) = Inl err \<longrightarrow>
      snd (post_events_blockchain to_uuid db i t c) = db) \<and>
   (beb_user_id c = Given cuid \<and> beb_network c = Given n \<and> beb_transaction_type c = Given tt \<and>
    beb_status c = Given cs \<and>
    optional (beb_document_id c) = Some cdid \<and> optional (beb_transaction_id c) = Some tx \<and>
    optional (beb_duration_seconds c) = Some cdu \<and> optional (beb_gas_used c) = Some g \<and>
    optional (beb_metadata c) = Some cmd \<and>
    to_uuid cuid = Some cu \<and> convert_optional to_uuid cdid = Some cd \<and>
    fits_float cdu \<and> fits_bigint g \<and> blockchain_events db = Some bt \<longrightarrow>
      post_events_blockchain to_uuid db i t c =
        (Inr ''Event recorded successfully'',
         db\<lparr>blockchain_events := Some (bt\<lparr>rows := rows bt @
           [\<lparr>br_id = Some i, br_user_id = cu, br_document_id = cd, br_transaction_id = tx,
             br_network = n, br_transaction_type = tt, br_duration_seconds = cdu,
             br_status = cs, br_gas_used = g, br_metadata = cmd,
             br_created_at = Some t\<rparr>]\<rparr>)\<rparr>)) \<and>
   (beb_user_id c = Given cuid \<and> to_uuid cuid = None \<and>
    fst (post_events_blockchain to_uuid db i t c) \<noteq> Inl RequestValidationError \<longrightarrow>
      post_events_blockchain to_uuid db i t c = (Inl (HTTPException 500), db))"
proof -
  have d2: "post_events_document to_uuid db i t b = (Inl RequestValidationError, db)"
    if "deb_user_id b = Missing \<or> deb_event_type b = Missing \<or> deb_status b = Missing"
  proof -
    from that have "fst (post_events_document to_uuid db i t b) = Inl RequestValidationError"
      unfolding post_events_document_rejects by (auto simp: required_None)
    with post_events_document_failure [of to_uuid db i t b RequestValidationError]
    show ?thesis by (simp add: prod_eq_iff)
  qed
  have b2: "post_events_blockchain to_uuid db i t c = (Inl RequestValidationError, db)"
    if "beb_user_id c = Missing \<or> beb_network c = Missing \<or> beb_transaction_type c = Missing \<or>
      beb_status c = Missing"
  proof -
    from that have "fst (post_events_blockchain to_uuid db i t c) = Inl RequestValidationError"
      unfolding post_events_blockchain_rejects by (auto simp: required_None)
    with post_events_blockchain_failure [of to_uuid db i t c RequestValidationError]
    show ?thesis by (simp add: prod_eq_iff)
  qed
  show ?thesis
    apply (intro conjI)
    subgoal by (rule post_events_document_rejects)
    subgoal using d2 by blast
    subgoal using post_events_document_failure by blast
    subgoal using post_events_document_stores [of b uid e s did ty ai du md to_uuid u d db dt i t]
      by blast
    subgoal using post_events_document_not_uuid [of b uid to_uuid db i t] by blast
    subgoal by (rule post_events_blockchain_rejects)
    subgoal using b2 by blast
    subgoal using post_events_blockchain_failure by blast
    subgoal
      using post_events_blockchain_stores
        [of c cuid n tt cs cdid tx cdu g cmd to_uuid cu cd db bt i t]
      by blast
    subgoal using post_events_blockchain_not_uuid [of c cuid to_uuid db i t] by blast
    done
qed

lemma user_1_converts: "to_uuid_ex user_1_text = Some 1"
  by code_simp

lemma fresh_database_tables:
  "document_events fresh_database = Some \<lparr>columns = document_events_columns, rows = []\<rparr>"
  "blockchain_events fresh_database = Some \<lparr>columns = blockchain_events_columns, rows = []\<rparr>"
  by (simp_all add: fresh_database_def empty_database_def init_database_def
      create_table_if_not_exists_def Let_def)

theorem required_fields_validated_witness:
  "post_events_document to_uuid_ex db_ex 7 0 missing_status_body
     = (Inl RequestValidationError, db_ex) \<and>
   post_events_blockchain to_uuid_ex db_ex 7 0 missing_network_body
     = (Inl RequestValidationError, db_ex) \<and>
   fst (post_events_document to_uuid_ex db_ex 7 0 ill_typed_duration_body)
     = Inl RequestValidationError \<and>
   post_events_document to_uuid_ex fresh_database 7 0 empty_status_body =
     (Inr ''Event recorded successfully'',
      fresh_database\<lparr>document_events := Some \<lparr>columns = document_events_columns, rows =
        [\<lparr>dr_id = Some 7, dr_user_id = 1, dr_document_id = None,
          dr_event_type = ''generation'', dr_document_type = None, dr_ai_service = None,
          dr_duration_seconds = None, dr_status = [], dr_metadata = None,
          dr_created_at = Some 0\<rparr>]\<rparr>\<rparr>) \<and>
   post_events_blockchain to_uuid_ex fresh_database 7 0 empty_network_body =
     (Inr ''Event recorded successfully'',
      fresh_database\<lparr>blockchain_events := Some \<lparr>columns = blockchain_events_columns, rows =
        [\<lparr>br_id = Some 7, br_user_id = 1, br_document_id = None, br_transaction_id = None,
          br_network = [], br_transaction_type = [], br_duration_seconds = None,
          br_status = ''success'', br_gas_used = Some 21000, br_metadata = None,
          br_created_at = Some 0\<rparr>]\<rparr>\<rparr>)"
proof -
  have 1: "deb_status missing_status_body = Missing"
    by (simp add: missing_status_body_def)
  have 2: "beb_network missing_network_body = Missing"
    by (simp add: missing_network_body_def)
  have 3: "optional (deb_duration_seconds ill_typed_duration_body) = None"
    by (simp add: ill_typed_duration_body_def optional_def)
  have 4: "deb_user_id empty_status_body = Given user_1_text \<and>
      deb_event_type empty_status_body = Given ''generation'' \<and>
      deb_status empty_status_body = Given [] \<and>
      optional (deb_document_id empty_status_body) = Some None \<and>
      optional (deb_document_type empty_status_body) = Some None \<and>
      optional (deb_ai_service empty_status_body) = Some None \<and>
      optional (deb_duration_seconds empty_status_body) = Some None \<and>
      optional (deb_metadata empty_status_body) = Some None \<and>
      to_uuid_ex user_1_text = Some 1 \<and> convert_optional to_uuid_ex None = Some None \<and>
      fits_float None"
    by (simp add: empty_status_body_def optional_def user_1_converts convert_optional_def
        fits_float_def)
  have 5: "beb_user_id empty_network_body = Given user_1_text \<and>
      beb_network empty_network_body = Given [] \<and>
      beb_transaction_type empty_network_body = Given [] \<and>
      beb_status empty_network_body = Given ''success'' \<and>
      optional (beb_document_id empty_network_body) = Some None \<and>
      optional (beb_transaction_id empty_network_body) = Some None \<and>
      optional (beb_duration_seconds empty_network_body) = Some None \<and>
      optional (beb_gas_used empty_network_body) = Some (Some 21000) \<and>
      optional (beb_metadata empty_network_body) = Some None \<and>
      fits_bigint (Some 21000)"
    by (simp add: empty_network_body_def optional_def fits_bigint_def)
  note a = required_fields_validated
    [of to_uuid_ex db_ex 7 0 missing_status_body _ _ _ _ _ _ _ _ _ _ _ missing_network_body]
  note b = required_fields_validated
    [of to_uuid_ex db_ex 7 0 ill_typed_duration_body _ _ _ _ _ _ _ _ _ _ _ missing_network_body]
  note c = required_fields_validated
    [of to_uuid_ex fresh_database 7 0 empty_status_body user_1_text "''generation''" "[]"
      None None None None None 1 None "\<lparr>columns = document_events_columns, rows = []\<rparr>"
      empty_network_body user_1_text "[]" "[]" "''success''" None None None "Some 21000" None
      1 None "\<lparr>columns = blockchain_events_columns, rows = []\<rparr>"]
  note a2 = a [THEN conjunct2, THEN conjunct1]
  note a7 = a [THEN conjunct2, THEN conjunct2, THEN conjunct2, THEN conjunct2, THEN conjunct2,
    THEN conjunct2, THEN conjunct1]
  note b1 = b [THEN conjunct1]
  note c4 = c [THEN conjunct2, THEN conjunct2, THEN conjunct2, THEN conjunct1]
  note c9 = c [THEN conjunct2, THEN conjunct2, THEN conjunct2, THEN conjunct2, THEN conjunct2,
    THEN conjunct2, THEN conjunct2, THEN conjunct2, THEN conjunct1]
  from a2 1 have r1: "post_events_document to_uuid_ex db_ex 7 0 missing_status_body
     = (Inl RequestValidationError, db_ex)"
    by simp
  from a7 2 have r2: "post_events_blockchain to_uuid_ex db_ex 7 0 missing_network_body
     = (Inl RequestValidationError, db_ex)"
    by simp
  from b1 3 have r3: "fst (post_events_document to_uuid_ex db_ex 7 0 ill_typed_duration_body)
     = Inl RequestValidationError"
    by simp
  have r4: "post_events_document to_uuid_ex fresh_database 7 0 empty_status_body =
     (Inr ''Event recorded successfully'',
      fresh_database\<lparr>document_events := Some (\<lparr>columns = document_events_columns, rows = []\<rparr>
        \<lparr>rows := rows \<lparr>columns = document_events_columns, rows = []\<rparr> @
        [\<lparr>dr_id = Some 7, dr_user_id = 1, dr_document_id = None,
          dr_event_type = ''generation'', dr_document_type = None, dr_ai_service = None,
          dr_duration_seconds = None, dr_status = [], dr_metadata = None,
          dr_created_at = Some 0\<rparr>]\<rparr>)\<rparr>)"
    by (rule c4 [THEN mp]) (use 4 fresh_database_tables(1) in blast)
  have r5: "post_events_blockchain to_uuid_ex fresh_database 7 0 empty_network_body =
     (Inr ''Event recorded successfully'',
      fresh_database\<lparr>blockchain_events := Some (\<lparr>columns = blockchain_events_columns, rows = []\<rparr>
        \<lparr>rows := rows \<lparr>columns = blockchain_events_columns, rows = []\<rparr> @
        [\<lparr>br_id = Some 7, br_user_id = 1, br_document_id = None, br_transaction_id = None,
          br_network = [], br_transaction_type = [], br_duration_seconds = None,
          br_status = ''success'', br_gas_used = Some 21000, br_metadata = None,
          br_created_at = Some 0\<rparr>]\<rparr>)\<rparr>)"
    by (rule c9 [THEN mp]) (use 4 5 fresh_database_tables(2) in blast)
  from r1 r2 r3 r4 r5 show ?thesis by simp
qed

text \<open>
  Claim C8 as stated fails: a document event whose \<^verbatim>\<open>status\<close> is the empty string and a
  blockchain event whose \<^verbatim>\<open>network\<close> and \<^verbatim>\<open>transaction_type\<close> are empty are accepted, and
  their rows, with the empty values, are in the tables afterwards.
\<close>

theorem empty_required_field_counterexample:
  "deb_status empty_status_body = Given [] \<and>
   fst (post_events_document to_uuid_ex fresh_database 7 0 empty_status_body)
     = Inr ''Event recorded successfully'' \<and>
   row_counts fresh_database = (Some 0, Some 0, Some 0) \<and>
   row_counts (snd (post_events_document to_uuid_ex fresh_database 7 0 empty_status_body))
     = (Some 1, Some 0, Some 0) \<and>
   map_option (\<lambda>t. map dr_status (rows t))
     (document_events (snd (post_events_document to_uuid_ex fresh_database 7 0 empty_status_body)))
     = Some [[]] \<and>
   beb_network empty_network_body = Given [] \<and>
   beb_transaction_type empty_network_body = Given [] \<and>
   fst (post_events_blockchain to_uuid_ex fresh_database 7 0 empty_network_body)
     = Inr ''Event recorded successfully'' \<and>
   map_option (\<lambda>t. map (\<lambda>r. (br_network r, br_transaction_type r)) (rows t))
     (blockchain_events (snd (post_events_blockchain to_uuid_ex fresh_database 7 0 empty_network_body)))
     = Some [([], [])]"
  by (simp add: post_events_document_def parse_DocumentEvent_def handle_document_event_def
      bind_DocumentEvent_def record_document_event_def document_row_of_def
      post_events_blockchain_def parse_BlockchainEvent_def handle_blockchain_event_def
      bind_BlockchainEvent_def record_blockchain_event_def blockchain_row_of_def
      empty_status_body_def empty_network_body_def required_def optional_def
      convert_optional_def fits_float_def fits_bigint_def user_1_converts
      fresh_database_def empty_database_def init_database_def
      create_table_if_not_exists_def row_counts_def Let_def)

section \<open>Schema initialisation is idempotent\<close>

lemma init_database_initialized: "initialized (init_database db)"
  by (simp add: initialized_def init_database_def create_table_if_not_exists_def Let_def
      split: option.splits)

lemma init_database_fixed: "initialized db \<Longrightarrow> init_database db = db"
  by (auto simp add: initialized_def init_database_def create_table_if_not_exists_def Let_def)

lemma init_database_funpow: "initialized db \<Longrightarrow> (init_database ^^ n) db = db"
  by (induction n) (simp_all add: init_database_fixed)

lemma record_document_event_initialized:
  "initialized db \<Longrightarrow> initialized (snd (record_document_event db i t e))"
  by (auto simp: initialized_def record_document_event_def split: option.splits if_splits)

lemma record_blockchain_event_initialized:
  "initialized db \<Longrightarrow> initialized (snd (record_blockchain_event db i t e))"
  by (auto simp: initialized_def record_blockchain_event_def split: option.splits if_splits)

text \<open>
  Claim C9. \<^verbatim>\<open>init_database\<close> leaves every state in which it has already run as it is,
  however often it is called: one run creates the three tables, and in a state where the
  three tables exist (whatever rows they hold) \<open>n\<close> further runs return the very same
  state, hence the same set of tables, the same column definitions and the same row
  counts.
\<close>

theorem init_database_idempotent:
  "initialized (init_database db0) \<and>
   (initialized db \<longrightarrow>
      (init_database ^^ n) db = db \<and>
      table_names ((init_database ^^ n) db) = table_names db \<and>
      table_columns ((init_database ^^ n) db) = table_columns db \<and>
      row_counts ((init_database ^^ n) db) = row_counts db)"
  by (simp add: init_database_initialized init_database_funpow)

theorem init_database_idempotent_witness:
  "initialized (snd (record_document_event fresh_database 7 0
       (doc_event 1 ''generation'' None None ''success''))) \<and>
   (init_database ^^ 3) (snd (record_document_event fresh_database 7 0
       (doc_event 1 ''generation'' None None ''success'')))
     = snd (record_document_event fresh_database 7 0
         (doc_event 1 ''generation'' None None ''success'')) \<and>
   row_counts ((init_database ^^ 3) (snd (record_document_event fresh_database 7 0
       (doc_event 1 ''generation'' None None ''success''))))
     = (Some 1, Some 0, Some 0)"
proof -
  let ?db = "snd (record_document_event fresh_database 7 0
      (doc_event 1 ''generation'' None None ''success''))"
  have h: "initialized ?db"
    unfolding fresh_database_def
    by (rule record_document_event_initialized) (rule init_database_initialized)
  have c: "row_counts ?db = (Some 1, Some 0, Some 0)"
    by (simp add: row_counts_def fresh_database_def empty_database_def init_database_def
        create_table_if_not_exists_def record_document_event_def doc_event_def fits_float_def
        Let_def)
  from init_database_idempotent [of empty_database ?db 3] h c show ?thesis
    by simp
qed

section \<open>Successful, failed and total\<close>

text \<open>
  Claim C10. In every answer, \<^verbatim>\<open>successful + failed\<close> is at most \<^verbatim>\<open>total\<close>: \<^verbatim>\<open>total\<close> counts
  all document events of the user, \<^verbatim>\<open>successful\<close> those of status \<^verbatim>\<open>success\<close>, \<^verbatim>\<open>failed\<close>
  those of status \<^verbatim>\<open>error\<close>, and the events of any other status make up the difference.
\<close>

theorem successful_failed_le_total:
  assumes "get_user_analytics db now u (Inr r)" and "document_events db = Some dt"
  shows "successful (ua_documents r) + failed (ua_documents r) \<le> total' (ua_documents r) \<and>
    total' (ua_documents r) =
      successful (ua_documents r) + failed (ua_documents r) +
      length (filter (\<lambda>x. dr_user_id x = u \<and> dr_status x \<noteq> ''success'' \<and> dr_status x \<noteq> ''error'')
        (rows dt))"
proof -
  from assms(1) obtain dt' bt where t: "document_events db = Some dt'" "blockchain_events db = Some bt"
    by (rule get_user_analytics_tables)
  with assms(2) have dt: "dt' = dt" by simp
  let ?m = "filter (\<lambda>r. dr_user_id r = u) (rows dt)"
  have d: "ua_documents r = documents_of (doc_stats (rows dt) u)"
    using assms(1) t dt by (simp add: get_user_analytics_Inr)
  have "length ?m = count_when (\<lambda>r. dr_status r = ''success'') ?m
      + count_when (\<lambda>r. dr_status r = ''error'') ?m
      + length (filter (\<lambda>r. dr_status r \<noteq> ''success'' \<and> dr_status r \<noteq> ''error'') ?m)"
    by (rule count_when_split) simp
  then show ?thesis
    by (simp add: d documents_of_def doc_stats_def Let_def conj_commute)
qed

theorem successful_failed_le_total_witness:
  "get_user_analytics db_ex now_ex 1 (Inr answer_ex) \<and>
   successful (ua_documents answer_ex) + failed (ua_documents answer_ex)
     \<le> total' (ua_documents answer_ex) \<and>
   total' (ua_documents answer_ex) = 3 \<and>
   successful (ua_documents answer_ex) + failed (ua_documents answer_ex) = 2 \<and>
   length (filter (\<lambda>x. dr_user_id x = 1 \<and> dr_status x \<noteq> ''success'' \<and> dr_status x \<noteq> ''error'')
     rows_ex) = 1"
proof -
  have "length (filter (\<lambda>x. dr_user_id x = 1 \<and> dr_status x \<noteq> ''success'' \<and> dr_status x \<noteq> ''error'')
     rows_ex) = 1"
    by code_simp
  with successful_failed_le_total [OF example_answer tables_ex(1)] example_answer
  show ?thesis by (simp add: answer_ex_def)
qed

end
